theory Spec2Isabelle
  imports Complex_Main
begin

section \<open>Python values used by \<open>singan.py\<close>\<close>

text \<open>
  The exceptions that the modelled code can raise. A raising call is a value \<open>Inl e\<close>;
  the object \<open>self\<close> keeps every assignment made before the raise, so the stateful
  operations return the pair of the outcome and the state that is left behind.
\<close>

datatype error =
    ZeroDivisionError
  | KeyError string
  | IndexError
  | AssertionError string
  | ValueError
  | AttributeError string
  | FileNotFoundError string
  | RuntimeError

text \<open>\<open>p in s\<close> on Python strings (substring test).\<close>

fun starts_with :: "string \<Rightarrow> string \<Rightarrow> bool" where
  "starts_with [] s = True"
| "starts_with (p # ps) [] = False"
| "starts_with (p # ps) (c # cs) = (p = c \<and> starts_with ps cs)"

fun str_contains :: "string \<Rightarrow> string \<Rightarrow> bool" where
  "str_contains p [] = (p = [])"
| "str_contains p (c # cs) = (starts_with p (c # cs) \<or> str_contains p cs)"

text \<open>\<open>str(n)\<close> for a Python integer, as the f-strings of \<open>train_step\<close> format it.\<close>

definition digit_char :: "nat \<Rightarrow> char" where
  "digit_char d = ''0123456789'' ! d"

function str_nat :: "nat \<Rightarrow> string" where
  "str_nat n = (if n < 10 then [digit_char n] else str_nat (n div 10) @ [digit_char (n mod 10)])"
  by pat_completeness auto
termination
  by (relation "measure (\<lambda>n. n)") auto

declare str_nat.simps [simp del]

definition str_int :: "int \<Rightarrow> string" where
  "str_int i = (if i < 0 then CHR ''-'' # str_nat (nat (- i)) else str_nat (nat i))"

text \<open>
  A Python \<open>dict\<close> with string keys, as an association list in insertion order.
  \<open>d[k]\<close> raises \<open>KeyError\<close> on a missing key.
\<close>

type_synonym 'v dict = "(string \<times> 'v) list"

definition dict_get :: "'v dict \<Rightarrow> string \<Rightarrow> error + 'v" where
  "dict_get d k = (case map_of d k of None \<Rightarrow> Inl (KeyError k) | Some v \<Rightarrow> Inr v)"

fun dict_set :: "'v dict \<Rightarrow> string \<Rightarrow> 'v \<Rightarrow> 'v dict" where
  "dict_set [] k v = [(k, v)]"
| "dict_set ((k', v') # d) k v = (if k' = k then (k, v) # d else (k', v') # dict_set d k v)"

definition dict_update :: "'v dict \<Rightarrow> 'v dict \<Rightarrow> 'v dict" where
  "dict_update d other = foldl (\<lambda>acc (k, v). dict_set acc k v) d other"

definition dict_pop :: "'v dict \<Rightarrow> string \<Rightarrow> 'v dict" where
  "dict_pop d k = filter (\<lambda>(k', v). k' \<noteq> k) d"

text \<open>Subscription \<open>xs[i]\<close> of a list of length \<open>n\<close>: the indices \<open>0 \<dots> n - 1\<close> read
  from the front, \<open>- n \<dots> - 1\<close> from the back, and every other index raises.\<close>

definition list_getitem :: "'a list \<Rightarrow> int \<Rightarrow> error + 'a" where
  "list_getitem xs i =
     (if 0 \<le> i \<and> i < int (length xs) then Inr (xs ! nat i)
      else if i < 0 \<and> - int (length xs) \<le> i then Inr (xs ! nat (int (length xs) + i))
      else Inl IndexError)"

section \<open>Tensors\<close>

text \<open>
  A tensor is its shape and its elements in row-major order; floating-point numbers are
  idealised as reals. Elementwise operations are modelled between tensors of equal shape
  (and as many elements, which the shape determines for every tensor torch builds); any
  other pair is reported as the \<open>RuntimeError\<close> that torch raises for shapes it cannot
  broadcast.
\<close>

record tensor =
  shape :: "nat list"
  data :: "real list"

definition same_shape :: "tensor \<Rightarrow> tensor \<Rightarrow> bool" where
  "same_shape a b = (shape a = shape b \<and> length (data a) = length (data b))"

definition mean :: "tensor \<Rightarrow> real" where
  "mean t = sum_list (data t) / real (length (data t))"

definition mse_loss :: "tensor \<Rightarrow> tensor \<Rightarrow> error + real" where
  "mse_loss inp target =
     (if same_shape inp target
      then Inr (mean \<lparr>shape = shape inp,
                      data = map2 (\<lambda>a b. (a - b)\<^sup>2) (data inp) (data target)\<rparr>)
      else Inl RuntimeError)"

definition zeros_like :: "tensor \<Rightarrow> tensor" where
  "zeros_like t = \<lparr>shape = shape t, data = replicate (length (data t)) 0\<rparr>"

text \<open>\<open>t.shape[-2:]\<close> unpacked into \<open>h, w\<close>: fewer than two dimensions make the
  unpacking raise \<open>ValueError\<close>.\<close>

definition shape_hw :: "tensor \<Rightarrow> error + nat \<times> nat" where
  "shape_hw t =
     (case rev (shape t) of w # h # _ \<Rightarrow> Inr (h, w) | _ \<Rightarrow> Inl ValueError)"

text \<open>\<open>g.norm(2, dim=1)\<close>: the 2-norm along dimension 1 (the channels of an image batch).
  For a gradient of shape \<open>b # c # rest\<close> the result has shape \<open>b # rest\<close>, one norm for
  every sample and every position.\<close>

definition norm2_dim1 :: "tensor \<Rightarrow> error + tensor" where
  "norm2_dim1 g =
     (case shape g of
        b # c # rest \<Rightarrow>
          (let inner = prod_list rest
           in Inr \<lparr>shape = b # rest,
                   data = map (\<lambda>k. sqrt (\<Sum>ch\<leftarrow>[0..<c].
                                 (data g ! ((k div inner * c + ch) * inner + k mod inner))\<^sup>2))
                              [0..<b * inner]\<rparr>)
      | _ \<Rightarrow> Inl IndexError)"

text \<open>\<open>alpha * real_data + (1. - alpha) * fake_data\<close> with \<open>alpha\<close> of shape
  \<open>(batch_size, 1, 1, 1)\<close>: on four-dimensional images of equal shape, sample \<open>k div per\<close>
  of the batch is scaled by its own coefficient.\<close>

definition interpolate_alpha :: "real list \<Rightarrow> tensor \<Rightarrow> tensor \<Rightarrow> error + tensor" where
  "interpolate_alpha alpha real_data fake_data =
     (case shape real_data of
        [b, c, h, w] \<Rightarrow>
          if same_shape fake_data real_data
          then (let per = c * h * w
                in Inr \<lparr>shape = shape real_data,
                        data = map (\<lambda>k. alpha ! (k div per) * (data real_data ! k)
                                        + (1 - alpha ! (k div per)) * (data fake_data ! k))
                                   [0..<length (data real_data)]\<rparr>)
          else Inl RuntimeError
      | _ \<Rightarrow> Inl RuntimeError)"

text \<open>\<open>BaseModel.parse_losses\<close> of mmengine, on a dict of scalar tensors: the total loss is
  the sum of the entries whose key contains \<open>loss\<close>, and it is logged first under the key
  \<open>loss\<close>.\<close>

definition parse_losses :: "real dict \<Rightarrow> real \<times> real dict" where
  "parse_losses losses_dict =
     (let log_vars = losses_dict;
          loss = sum_list (map snd (filter (\<lambda>(key, value). str_contains ''loss'' key) log_vars))
      in (loss, (''loss'', loss) # log_vars))"

section \<open>The objects held by the model\<close>

text \<open>
  An \<open>nn.Module\<close> is its parameters, its buffers and whether its parameters require
  gradients. What the networks compute and how an optimiser changes them is not part of
  \<open>singan.py\<close>; those capabilities are the fields of \<open>env\<close> below.
\<close>

record module =
  params :: "real list"
  buffers :: "real list"
  requires_grad :: bool

text \<open>
  Modelled from the spec: the exponential-moving-average shadow of the generator
  (\<open>generator_ema\<close>, class \<open>ExponentialMovingAverage\<close>, defined outside
  \<open>singan.py\<close>). Its \<open>update_parameters\<close> blends every shadow parameter as
  \<open>decay * shadow_prev + (1 - decay) * generator_current\<close>; buffers follow the same rule
  only when \<open>update_buffers\<close> is set. \<open>sync_parameters\<close> is the full parameter copy,
  \<open>sync_buffers\<close> the plain buffer copy.
\<close>

record ema_model =
  ema_params :: "real list"
  ema_buffers :: "real list"
  decay :: real
  update_buffers :: bool

definition blend :: "real \<Rightarrow> real list \<Rightarrow> real list \<Rightarrow> real list" where
  "blend d shadow src = map2 (\<lambda>s g. d * s + (1 - d) * g) shadow src"

definition update_parameters :: "ema_model \<Rightarrow> module \<Rightarrow> ema_model" where
  "update_parameters e m =
     e\<lparr>ema_params := blend (decay e) (ema_params e) (params m),
       ema_buffers := (if update_buffers e then blend (decay e) (ema_buffers e) (buffers m)
                       else ema_buffers e)\<rparr>"

definition sync_parameters :: "ema_model \<Rightarrow> module \<Rightarrow> ema_model" where
  "sync_parameters e m = e\<lparr>ema_params := params m\<rparr>"

definition sync_buffers :: "ema_model \<Rightarrow> module \<Rightarrow> ema_model" where
  "sync_buffers e m = e\<lparr>ema_buffers := buffers m\<rparr>"

text \<open>An \<open>OptimWrapper\<close>: only its \<open>_accumulative_counts\<close> is read by \<open>singan.py\<close>.\<close>

record optim_wrapper =
  accumulative_counts :: int

text \<open>A \<open>MultiStepLR\<close> built in \<open>train_step\<close>: the optimiser it is bound to, its keyword
  arguments and the number of \<open>step()\<close> calls so far.\<close>

record scheduler =
  sched_optimizer :: string
  sched_kwargs :: "real dict"
  sched_steps :: nat

text \<open>The content of the pickle file read by \<open>load_test_pkl\<close>; a field that the file
  lacks is \<open>None\<close>.\<close>

record pkl =
  pkl_fixed_noises :: "tensor list option"
  pkl_noise_weights :: "real list option"
  pkl_curr_stage :: "int option"

text \<open>What the model did, in order (a ghost record of the calls the source makes).\<close>

datatype event =
    LoadPrevWeight string int
  | BuildSchedulers int
  | ConstructFixedNoises
  | DiscriminatorRound int
  | SetRequiresGrad bool
  | GeneratorRound int
  | EmaUpdateParameters
  | EmaSyncBuffers
  | EmaSyncParameters
  | NoiseWeightAppend real
  | SchedulerStep
  | LoadTestPkl

text \<open>The attributes that \<open>SinGAN\<close> inherits from \<open>BaseGAN\<close>, and its own. An attribute
  that is assigned later than \<open>__init__\<close> is an \<open>option\<close>. \<open>rng\<close> is the position of
  the global random generator and \<open>trace\<close> the ghost record of events.\<close>

record basegan =
  generator :: module
  discriminator :: module
  generator_ema :: "ema_model option"
  with_ema_gen :: bool
  ema_start :: int
  generator_steps :: int
  discriminator_steps :: int

record singan = basegan +
  iters_per_scale :: int
  noise_weight_init :: real
  lr_scheduler_args :: "real dict option"
  num_scales :: "int option"
  curr_stage :: int
  noise_weights :: "real list"
  fixed_noises :: "tensor list"
  reals :: "tensor list"
  loaded_test_pkl :: bool
  pkl_data :: "string option"
  gen_scheduler :: "scheduler option"
  disc_scheduler :: "scheduler option"
  rng :: nat
  trace :: "event list"

text \<open>What a loss was computed from: the networks, the batch, the noise and image
  pyramids, the stage and the position of the random generator. An optimiser step is a
  function of the loss and of these.\<close>

record graph =
  g_generator :: module
  g_discriminator :: module
  g_inputs :: "tensor dict"
  g_fixed_noises :: "tensor list"
  g_noise_weights :: "real list"
  g_reals :: "tensor list"
  g_curr_stage :: int
  g_rng :: nat

definition graph_of :: "singan \<Rightarrow> tensor dict \<Rightarrow> graph" where
  "graph_of self inputs =
     \<lparr>g_generator = generator self, g_discriminator = discriminator self, g_inputs = inputs,
      g_fixed_noises = fixed_noises self, g_noise_weights = noise_weights self,
      g_reals = reals self, g_curr_stage = curr_stage self, g_rng = rng self\<rparr>"

text \<open>
  The collaborators of \<open>singan.py\<close>: the networks, the differentiation engine, the
  optimisers, the random generator, the file system and the parent class. They are
  arbitrary functions here; the random generator is read at the position \<open>rng\<close>.
\<close>

record env =
  data_preprocessor :: "tensor dict \<Rightarrow> tensor dict"
  generator_forward ::
    "module \<Rightarrow> tensor \<Rightarrow> tensor list \<Rightarrow> real list \<Rightarrow> string \<Rightarrow> int \<Rightarrow> nat \<Rightarrow> tensor"
  discriminator_forward :: "module \<Rightarrow> tensor \<Rightarrow> int \<Rightarrow> tensor"
  discriminator_grad :: "module \<Rightarrow> tensor \<Rightarrow> int \<Rightarrow> tensor"
  check_and_load_prev_weight :: "module \<Rightarrow> int \<Rightarrow> module"
  update_params :: "optim_wrapper \<Rightarrow> real \<Rightarrow> graph \<Rightarrow> module \<Rightarrow> module"
  gather_log_vars :: "real dict list \<Rightarrow> real dict"
  F_interpolate :: "tensor \<Rightarrow> nat list \<Rightarrow> tensor"
  torch_rand :: "nat \<Rightarrow> nat \<Rightarrow> real list"
  torch_randn :: "nat \<Rightarrow> nat \<Rightarrow> real list"
  open_pickle :: "string \<Rightarrow> pkl option"
  super_test_step :: "singan \<Rightarrow> tensor dict \<Rightarrow> (error + tensor list) \<times> singan"

type_synonym 'a outcome = "(error + 'a) \<times> singan"

section \<open>\<open>SinGAN.__init__\<close>\<close>

text \<open>The attributes set by \<open>__init__\<close> after the parent's initialiser has set its own
  (\<open>base\<close>). No scheduler exists yet.\<close>

definition SinGAN_init ::
  "basegan \<Rightarrow> int option \<Rightarrow> int \<Rightarrow> real \<Rightarrow> real dict option \<Rightarrow> string option \<Rightarrow> singan" where
  "SinGAN_init base num_scales' iters_per_scale' noise_weight_init' lr_scheduler_args'
       test_pkl_data =
     \<lparr>generator = generator base, discriminator = discriminator base,
      generator_ema = generator_ema base, with_ema_gen = with_ema_gen base,
      ema_start = ema_start base, generator_steps = generator_steps base,
      discriminator_steps = discriminator_steps base,
      iters_per_scale = iters_per_scale',
      noise_weight_init = noise_weight_init',
      lr_scheduler_args = (case lr_scheduler_args' of
                             None \<Rightarrow> None
                           | Some a \<Rightarrow> if a \<noteq> [] then Some a else None),
      num_scales = num_scales',
      curr_stage = - 1,
      noise_weights = [1],
      fixed_noises = [],
      reals = [],
      loaded_test_pkl = False,
      pkl_data = test_pkl_data,
      gen_scheduler = None, disc_scheduler = None,
      rng = 0, trace = []\<rparr>"

section \<open>\<open>load_test_pkl\<close> and \<open>test_step\<close>\<close>

definition load_test_pkl :: "env \<Rightarrow> singan \<Rightarrow> unit outcome" where
  "load_test_pkl env self0 =
     (let self = self0\<lparr>trace := trace self0 @ [LoadTestPkl]\<rparr>
      in case pkl_data self of
           None \<Rightarrow> (Inr (), self)
         | Some path \<Rightarrow>
            (case open_pickle env path of
               None \<Rightarrow> (Inl (FileNotFoundError path), self)
             | Some d \<Rightarrow>
                (case pkl_fixed_noises d of
                   None \<Rightarrow> (Inl (KeyError ''fixed_noises''), self)
                 | Some fns \<Rightarrow>
                    (let self1 = self\<lparr>fixed_noises := fns\<rparr>
                     in case pkl_noise_weights d of
                          None \<Rightarrow> (Inl (KeyError ''noise_weights''), self1)
                        | Some nws \<Rightarrow>
                           (let self2 = self1\<lparr>noise_weights := nws\<rparr>
                            in case pkl_curr_stage d of
                                 None \<Rightarrow> (Inl (KeyError ''curr_stage''), self2)
                               | Some cs \<Rightarrow>
                                  (Inr (), self2\<lparr>curr_stage := cs,
                                                 loaded_test_pkl := True\<rparr>))))))"

definition test_step :: "env \<Rightarrow> tensor dict \<Rightarrow> singan \<Rightarrow> tensor list outcome" where
  "test_step env data' self =
     (if \<not> loaded_test_pkl self
      then (case load_test_pkl env self of
              (Inl e, self1) \<Rightarrow> (Inl e, self1)
            | (Inr u, self1) \<Rightarrow> super_test_step env self1 data')
      else super_test_step env self data')"

section \<open>\<open>construct_fixed_noises\<close>\<close>

text \<open>The loop over \<open>enumerate(self.reals)\<close>; every iteration appends one tensor to
  \<open>self.fixed_noises\<close>.\<close>

fun construct_loop :: "env \<Rightarrow> nat \<Rightarrow> tensor list \<Rightarrow> singan \<Rightarrow> unit outcome" where
  "construct_loop env i [] self = (Inr (), self)"
| "construct_loop env i (real' # rest) self =
     (case shape_hw real' of
        Inl e \<Rightarrow> (Inl e, self)
      | Inr (h, w) \<Rightarrow>
         if i = 0
         then (let noise = \<lparr>shape = [1, 1, h, w], data = torch_randn env (rng self) (h * w)\<rparr>
               in construct_loop env (Suc i) rest
                    (self\<lparr>fixed_noises := fixed_noises self @ [noise], rng := Suc (rng self)\<rparr>))
         else (let noise = zeros_like real'
               in construct_loop env (Suc i) rest
                    (self\<lparr>fixed_noises := fixed_noises self @ [noise]\<rparr>)))"

definition construct_fixed_noises :: "env \<Rightarrow> singan \<Rightarrow> unit outcome" where
  "construct_fixed_noises env self =
     construct_loop env 0 (reals self) (self\<lparr>trace := trace self @ [ConstructFixedNoises]\<rparr>)"

section \<open>The losses\<close>

definition gen_loss :: "singan \<Rightarrow> tensor \<Rightarrow> tensor \<Rightarrow> error + real \<times> real dict" where
  "gen_loss self disc_pred_fake recon_imgs =
     (let loss_gen = - mean disc_pred_fake
      in case list_getitem (reals self) (curr_stage self) of
           Inl e \<Rightarrow> Inl e
         | Inr target \<Rightarrow>
            (case mse_loss recon_imgs target of
               Inl e \<Rightarrow> Inl e
             | Inr m \<Rightarrow>
                Inr (parse_losses [(''loss_gen'', loss_gen), (''loss_mse'', 10 * m)])))"

text \<open>The gradient penalty of \<open>disc_loss\<close>, from the gradient of the discriminator at the
  interpolated images: \<open>((gradients.norm(2, dim=1) - 1)**2).mean()\<close>.\<close>

definition gradients_penalty :: "tensor \<Rightarrow> error + real" where
  "gradients_penalty gradients =
     (case norm2_dim1 gradients of
        Inl e \<Rightarrow> Inl e
      | Inr n \<Rightarrow> Inr (mean \<lparr>shape = shape n, data = map (\<lambda>x. (x - 1)\<^sup>2) (data n)\<rparr>))"

text \<open>\<open>disc_loss\<close> draws \<open>alpha = torch.rand(batch_size, 1, 1, 1)\<close> from the random
  generator, and asks the differentiation engine for the gradient of the discriminator's
  summed output with respect to the interpolated images.\<close>

definition disc_loss ::
  "env \<Rightarrow> singan \<Rightarrow> tensor \<Rightarrow> tensor \<Rightarrow> tensor \<Rightarrow> tensor \<Rightarrow> (real \<times> real dict) outcome" where
  "disc_loss env self disc_pred_fake disc_pred_real fake_data real_data =
     (let loss_disc_fake = mean disc_pred_fake;
          loss_disc_real = - mean disc_pred_real
      in case shape real_data of
           [] \<Rightarrow> (Inl IndexError, self)
         | batch_size # _ \<Rightarrow>
            (let alpha = torch_rand env (rng self) batch_size;
                 self1 = self\<lparr>rng := Suc (rng self)\<rparr>
             in case interpolate_alpha alpha real_data fake_data of
                  Inl e \<Rightarrow> (Inl e, self1)
                | Inr interpolates \<Rightarrow>
                   (let gradients = discriminator_grad env (discriminator self1) interpolates
                                      (curr_stage self1)
                    in case gradients_penalty gradients of
                         Inl e \<Rightarrow> (Inl e, self1)
                       | Inr gp \<Rightarrow>
                          (Inr (parse_losses [(''loss_disc_fake'', loss_disc_fake),
                                              (''loss_disc_real'', loss_disc_real),
                                              (''loss_gp'', 0.1 * gp)]), self1))))"

text \<open>The penalty as the specification words it: \<open>(norm_2(grad) - 1)^2\<close> averaged over
  the batch, that is one 2-norm of the whole gradient for every sample. It is compared
  with \<open>gradients_penalty\<close> in the results on the discriminator loss.\<close>

definition penalty_per_sample :: "tensor \<Rightarrow> real" where
  "penalty_per_sample gradients =
     (let b = hd (shape gradients);
          per = prod_list (tl (shape gradients))
      in (\<Sum>s\<leftarrow>[0..<b].
            (sqrt (\<Sum>k\<leftarrow>[0..<per]. (data gradients ! (s * per + k))\<^sup>2) - 1)\<^sup>2) / real b)"

section \<open>\<open>train_generator\<close> and \<open>train_discriminator\<close>\<close>

text \<open>\<open>optimizer_wrapper.update_params(parsed_loss)\<close> replaces the parameters and
  buffers of the module that the optimiser owns and leaves its \<open>requires_grad\<close> flag.\<close>

definition stepped :: "env \<Rightarrow> optim_wrapper \<Rightarrow> real \<Rightarrow> singan \<Rightarrow> tensor dict \<Rightarrow> module \<Rightarrow> module" where
  "stepped env optimizer_wrapper parsed_loss self inputs m =
     (update_params env optimizer_wrapper parsed_loss (graph_of self inputs) m)
       \<lparr>requires_grad := requires_grad m\<rparr>"

definition train_generator :: "env \<Rightarrow> tensor dict \<Rightarrow> optim_wrapper \<Rightarrow> singan \<Rightarrow> real dict outcome" where
  "train_generator env inputs optimizer_wrapper self =
     (case dict_get inputs ''input_sample'' of
        Inl e \<Rightarrow> (Inl e, self)
      | Inr input_sample \<Rightarrow>
         (let fake_imgs = generator_forward env (generator self) input_sample
                            (fixed_noises self) (noise_weights self) ''rand'' (curr_stage self)
                            (rng self);
              self1 = self\<lparr>rng := Suc (rng self)\<rparr>;
              disc_pred_fake_g = discriminator_forward env (discriminator self1) fake_imgs
                                   (curr_stage self1);
              recon_imgs = generator_forward env (generator self1) input_sample
                             (fixed_noises self1) (noise_weights self1) ''recon''
                             (curr_stage self1) (rng self1)
          in case gen_loss self1 disc_pred_fake_g recon_imgs of
               Inl e \<Rightarrow> (Inl e, self1)
             | Inr (parsed_loss, log_vars) \<Rightarrow>
                (Inr log_vars,
                 self1\<lparr>generator := stepped env optimizer_wrapper parsed_loss self1 inputs
                                       (generator self1),
                        trace := trace self1 @ [GeneratorRound (curr_stage self1)]\<rparr>)))"

definition train_discriminator ::
  "env \<Rightarrow> tensor dict \<Rightarrow> optim_wrapper \<Rightarrow> singan \<Rightarrow> real dict outcome" where
  "train_discriminator env inputs optimizer_wrapper self =
     (case dict_get inputs ''input_sample'' of
        Inl e \<Rightarrow> (Inl e, self)
      | Inr input_sample \<Rightarrow>
         (let fake_imgs = generator_forward env (generator self) input_sample
                            (fixed_noises self) (noise_weights self) ''rand'' (curr_stage self)
                            (rng self);
              self1 = self\<lparr>rng := Suc (rng self)\<rparr>
          in case list_getitem (reals self1) (curr_stage self1) of
               Inl e \<Rightarrow> (Inl e, self1)
             | Inr real_imgs \<Rightarrow>
                (let disc_pred_fake = discriminator_forward env (discriminator self1) fake_imgs
                                        (curr_stage self1);
                     disc_pred_real = discriminator_forward env (discriminator self1) real_imgs
                                        (curr_stage self1)
                 in case disc_loss env self1 disc_pred_fake disc_pred_real fake_imgs real_imgs of
                      (Inl e, self2) \<Rightarrow> (Inl e, self2)
                    | (Inr (parsed_loss, log_vars), self2) \<Rightarrow>
                       (Inr log_vars,
                        self2\<lparr>discriminator := stepped env optimizer_wrapper parsed_loss self2
                                                  inputs (discriminator self2),
                              trace := trace self2 @ [DiscriminatorRound (curr_stage self2)]\<rparr>))))"

section \<open>\<open>train_gan\<close>\<close>

text \<open>\<open>set_requires_grad(self.discriminator, flag)\<close>.\<close>

definition set_requires_grad :: "bool \<Rightarrow> singan \<Rightarrow> singan" where
  "set_requires_grad flag self =
     self\<lparr>discriminator := (discriminator self)\<lparr>requires_grad := flag\<rparr>,
          trace := trace self @ [SetRequiresGrad flag]\<rparr>"

text \<open>The loop \<open>for _ in range(self.generator_steps * gen_accu_iters)\<close>, collecting the
  logs of every round.\<close>

fun generator_rounds ::
  "env \<Rightarrow> tensor dict \<Rightarrow> optim_wrapper \<Rightarrow> nat \<Rightarrow> real dict list \<Rightarrow> singan
     \<Rightarrow> real dict list outcome" where
  "generator_rounds env inputs gen_optimizer_wrapper 0 log_vars_gen_list self =
     (Inr log_vars_gen_list, self)"
| "generator_rounds env inputs gen_optimizer_wrapper (Suc n) log_vars_gen_list self =
     (case train_generator env inputs gen_optimizer_wrapper self of
        (Inl e, self1) \<Rightarrow> (Inl e, self1)
      | (Inr log_vars_gen, self1) \<Rightarrow>
         generator_rounds env inputs gen_optimizer_wrapper n
           (log_vars_gen_list @ [log_vars_gen]) self1)"

text \<open>The statements under \<open># only do ema after generator update\<close>. Reading
  \<open>self.generator_ema\<close> when the attribute does not exist raises \<open>AttributeError\<close>.\<close>

definition ema_after_generator_update :: "int \<Rightarrow> int \<Rightarrow> singan \<Rightarrow> unit outcome" where
  "ema_after_generator_update curr_iter disc_accu_iters self =
     (if with_ema_gen self
         \<and> curr_iter + 1 \<ge> ema_start self * discriminator_steps self * disc_accu_iters
      then (case generator_ema self of
              None \<Rightarrow> (Inl (AttributeError ''generator_ema''), self)
            | Some ema \<Rightarrow>
               (let ema1 = update_parameters ema (generator self);
                    self1 = self\<lparr>generator_ema := Some ema1,
                                 trace := trace self @ [EmaUpdateParameters]\<rparr>
                in if \<not> update_buffers ema1
                   then (Inr (), self1\<lparr>generator_ema := Some (sync_buffers ema1 (generator self1)),
                                       trace := trace self1 @ [EmaSyncBuffers]\<rparr>)
                   else (Inr (), self1)))
      else if with_ema_gen self
      then (case generator_ema self of
              None \<Rightarrow> (Inl (AttributeError ''generator_ema''), self)
            | Some ema \<Rightarrow>
               (Inr (), self\<lparr>generator_ema := Some (sync_parameters ema (generator self)),
                            trace := trace self @ [EmaSyncParameters]\<rparr>))
      else (Inr (), self))"

definition train_gan ::
  "env \<Rightarrow> int \<Rightarrow> tensor dict \<Rightarrow> optim_wrapper dict \<Rightarrow> singan \<Rightarrow> real dict outcome" where
  "train_gan env curr_iter inputs_dict optim_wrapper self =
     (case dict_get optim_wrapper ''discriminator'' of
        Inl e \<Rightarrow> (Inl e, self)
      | Inr disc_optimizer_wrapper \<Rightarrow>
         (let disc_accu_iters = accumulative_counts disc_optimizer_wrapper
          in case train_discriminator env inputs_dict disc_optimizer_wrapper self of
               (Inl e, self1) \<Rightarrow> (Inl e, self1)
             | (Inr log_vars, self1) \<Rightarrow>
                if discriminator_steps self1 * disc_accu_iters = 0
                then (Inl ZeroDivisionError, self1)
                else if (curr_iter + 1) mod (discriminator_steps self1 * disc_accu_iters) = 0
                then (let self2 = set_requires_grad False self1
                      in case dict_get optim_wrapper ''generator'' of
                           Inl e \<Rightarrow> (Inl e, self2)
                         | Inr gen_optimizer_wrapper \<Rightarrow>
                            (let gen_accu_iters = accumulative_counts gen_optimizer_wrapper
                             in case generator_rounds env inputs_dict gen_optimizer_wrapper
                                       (nat (generator_steps self2 * gen_accu_iters)) [] self2 of
                                  (Inl e, self3) \<Rightarrow> (Inl e, self3)
                                | (Inr log_vars_gen_list, self3) \<Rightarrow>
                                   (let log_vars_gen =
                                          dict_pop (gather_log_vars env log_vars_gen_list) ''loss'';
                                        self4 = set_requires_grad True self3
                                    in case ema_after_generator_update curr_iter disc_accu_iters
                                              self4 of
                                         (Inl e, self5) \<Rightarrow> (Inl e, self5)
                                       | (Inr u, self5) \<Rightarrow>
                                          (Inr (dict_update log_vars log_vars_gen), self5))))
                else (Inr log_vars, self1)))"

section \<open>\<open>train_step\<close>\<close>

definition warning_msg :: string where
  "warning_msg =
     ''SinGAN do set batch size as 1 during training '' @
     ''and do not support gradient accumulation.''"

text \<open>\<open>if self.lr_scheduler_args:\<close> holds for a dict that is not empty.\<close>

definition truthy :: "real dict option \<Rightarrow> bool" where
  "truthy a = (case a of None \<Rightarrow> False | Some d \<Rightarrow> d \<noteq> [])"

text \<open>The body of \<open>if curr_iter % (self.iters_per_scale * self.discriminator_steps) == 0\<close>:
  the stage is incremented first, then the weights are carried over, the optimisers of
  the new stage are looked up and checked, and fresh schedulers are built.\<close>

definition stage_transition :: "env \<Rightarrow> optim_wrapper dict \<Rightarrow> singan \<Rightarrow> unit outcome" where
  "stage_transition env optim_wrapper self =
     (let self1 = self\<lparr>curr_stage := curr_stage self + 1\<rparr>;
          self2 = self1\<lparr>generator :=
                          check_and_load_prev_weight env (generator self1) (curr_stage self1),
                        trace := trace self1 @ [LoadPrevWeight ''generator'' (curr_stage self1)]\<rparr>;
          self3 = self2\<lparr>discriminator :=
                          check_and_load_prev_weight env (discriminator self2) (curr_stage self2),
                        trace := trace self2
                                   @ [LoadPrevWeight ''discriminator'' (curr_stage self2)]\<rparr>
      in case dict_get optim_wrapper (''generator_'' @ str_int (curr_stage self3)) of
           Inl e \<Rightarrow> (Inl e, self3)
         | Inr curr_gen_optim \<Rightarrow>
            (case dict_get optim_wrapper (''discriminator_'' @ str_int (curr_stage self3)) of
               Inl e \<Rightarrow> (Inl e, self3)
             | Inr curr_disc_optim \<Rightarrow>
                if accumulative_counts curr_gen_optim \<noteq> 1
                then (Inl (AssertionError warning_msg), self3)
                else if accumulative_counts curr_disc_optim \<noteq> 1
                then (Inl (AssertionError warning_msg), self3)
                else if truthy (lr_scheduler_args self3)
                then (Inr (),
                      self3\<lparr>gen_scheduler :=
                               Some \<lparr>sched_optimizer = ''generator_'' @ str_int (curr_stage self3),
                                     sched_kwargs = the (lr_scheduler_args self3),
                                     sched_steps = 0\<rparr>,
                             disc_scheduler :=
                               Some \<lparr>sched_optimizer =
                                       ''discriminator_'' @ str_int (curr_stage self3),
                                     sched_kwargs = the (lr_scheduler_args self3),
                                     sched_steps = 0\<rparr>,
                             trace := trace self3 @ [BuildSchedulers (curr_stage self3)]\<rparr>)
                else (Inr (), self3)))"

text \<open>\<open>[inputs_dict[f'real_scale{s}'] for s in range(scales)]\<close>.\<close>

fun real_scales :: "tensor dict \<Rightarrow> nat list \<Rightarrow> error + tensor list" where
  "real_scales inputs_dict [] = Inr []"
| "real_scales inputs_dict (s # ss) =
     (case dict_get inputs_dict (''real_scale'' @ str_nat s) of
        Inl e \<Rightarrow> Inl e
      | Inr r \<Rightarrow>
         (case real_scales inputs_dict ss of
            Inl e \<Rightarrow> Inl e
          | Inr rs \<Rightarrow> Inr (r # rs)))"

text \<open>The body of \<open>if curr_iter == 0 or len(self.reals) == 0\<close>.\<close>

definition setup_pyramid :: "env \<Rightarrow> tensor dict \<Rightarrow> singan \<Rightarrow> unit outcome" where
  "setup_pyramid env inputs_dict self =
     (let keys = filter (str_contains ''real_scale'') (remdups (map fst inputs_dict));
          scales = length keys
      in case real_scales inputs_dict [0..<scales] of
           Inl e \<Rightarrow> (Inl e, self)
         | Inr rs \<Rightarrow> construct_fixed_noises env (self\<lparr>reals := rs\<rparr>))"

text \<open>The body of the \<open># update noise weight\<close> branch. \<open>last2\<close> is the slice
  \<open>shape[-2:]\<close>.\<close>

definition last2 :: "nat list \<Rightarrow> nat list" where
  "last2 xs = drop (length xs - 2) xs"

definition update_noise_weight :: "env \<Rightarrow> tensor dict \<Rightarrow> singan \<Rightarrow> unit outcome" where
  "update_noise_weight env inputs_dict self =
     (case dict_get inputs_dict ''input_sample'' of
        Inl e \<Rightarrow> (Inl e, self)
      | Inr input_sample \<Rightarrow>
         (let g_recon = generator_forward env (generator self) input_sample (fixed_noises self)
                          (noise_weights self) ''recon'' (curr_stage self) (rng self)
          in case list_getitem (reals self) (curr_stage self + 1) of
               Inl e \<Rightarrow> (Inl e, self)
             | Inr real_next \<Rightarrow>
                (let g_recon1 = F_interpolate env g_recon (last2 (shape real_next))
                 in case mse_loss g_recon1 real_next of
                      Inl e \<Rightarrow> (Inl e, self)
                    | Inr mse \<Rightarrow>
                       (let rmse = sqrt mse
                        in (Inr (),
                            self\<lparr>noise_weights :=
                                    noise_weights self @ [noise_weight_init self * rmse],
                                  trace := trace self
                                    @ [NoiseWeightAppend (noise_weight_init self * rmse)]\<rparr>)))))"

text \<open>The body of \<open># call scheduler when all submodules are fully updated\<close>.\<close>

definition step_schedulers :: "int \<Rightarrow> singan \<Rightarrow> unit outcome" where
  "step_schedulers curr_iter self =
     (if discriminator_steps self = 0 then (Inl ZeroDivisionError, self)
      else if (curr_iter + 1) mod discriminator_steps self = 0
      then (if truthy (lr_scheduler_args self)
            then (case disc_scheduler self of
                    None \<Rightarrow> (Inl (AttributeError ''disc_scheduler''), self)
                  | Some ds \<Rightarrow>
                     (let self1 = self\<lparr>disc_scheduler := Some (ds\<lparr>sched_steps := Suc (sched_steps ds)\<rparr>)\<rparr>
                      in case gen_scheduler self1 of
                           None \<Rightarrow> (Inl (AttributeError ''gen_scheduler''), self1)
                         | Some gs \<Rightarrow>
                            (Inr (),
                             self1\<lparr>gen_scheduler := Some (gs\<lparr>sched_steps := Suc (sched_steps gs)\<rparr>),
                                   trace := trace self1 @ [SchedulerStep]\<rparr>)))
            else (Inr (), self))
      else (Inr (), self))"

text \<open>\<open>train_step\<close>; \<open>curr_iter\<close> is the value of \<open>message_hub.get_info('iter')\<close>.\<close>

definition train_step ::
  "env \<Rightarrow> int \<Rightarrow> tensor dict \<Rightarrow> optim_wrapper dict \<Rightarrow> singan \<Rightarrow> real dict outcome" where
  "train_step env curr_iter data' optim_wrapper self =
     (if iters_per_scale self * discriminator_steps self = 0 then (Inl ZeroDivisionError, self)
      else
        case (if curr_iter mod (iters_per_scale self * discriminator_steps self) = 0
              then stage_transition env optim_wrapper self
              else (Inr (), self)) of
          (Inl e, self1) \<Rightarrow> (Inl e, self1)
        | (Inr u, self1) \<Rightarrow>
           (case dict_get optim_wrapper (''generator_'' @ str_int (curr_stage self1)) of
              Inl e \<Rightarrow> (Inl e, self1)
            | Inr gen_optim \<Rightarrow>
               (case dict_get optim_wrapper (''discriminator_'' @ str_int (curr_stage self1)) of
                  Inl e \<Rightarrow> (Inl e, self1)
                | Inr disc_optim \<Rightarrow>
                   (let curr_optimizer_wrapper =
                          [(''generator'', gen_optim), (''discriminator'', disc_optim)];
                        inputs_dict = data_preprocessor env data'
                    in case (if curr_iter = 0 \<or> length (reals self1) = 0
                             then setup_pyramid env inputs_dict self1
                             else (Inr (), self1)) of
                         (Inl e, self2) \<Rightarrow> (Inl e, self2)
                       | (Inr u, self2) \<Rightarrow>
                          (case train_gan env curr_iter inputs_dict curr_optimizer_wrapper self2 of
                             (Inl e, self3) \<Rightarrow> (Inl e, self3)
                           | (Inr log_vars, self3) \<Rightarrow>
                              (let log_vars1 = dict_set log_vars ''curr_stage''
                                                 (real_of_int (curr_stage self3))
                               in case (if (curr_iter + 1)
                                             mod (iters_per_scale self3 * discriminator_steps self3) = 0
                                           \<and> curr_stage self3 < int (length (reals self3)) - 1
                                        then update_noise_weight env inputs_dict self3
                                        else (Inr (), self3)) of
                                    (Inl e, self4) \<Rightarrow> (Inl e, self4)
                                  | (Inr u, self4) \<Rightarrow>
                                     (case step_schedulers curr_iter self4 of
                                        (Inl e, self5) \<Rightarrow> (Inl e, self5)
                                      | (Inr u, self5) \<Rightarrow> (Inr log_vars1, self5))))))))"

section \<open>The training loop\<close>

text \<open>The runner outside \<open>singan.py\<close> calls \<open>train_step\<close> once for every iteration
  \<open>0, 1, 2, \<dots>\<close> and stops at the first exception. \<open>run_ticks env batch ow n self\<close> is
  the outcome of the first \<open>n\<close> iterations, iteration \<open>k\<close> on the batch \<open>batch k\<close>.\<close>

fun run_ticks ::
  "env \<Rightarrow> (nat \<Rightarrow> tensor dict) \<Rightarrow> optim_wrapper dict \<Rightarrow> nat \<Rightarrow> singan \<Rightarrow> unit outcome" where
  "run_ticks env batch optim_wrapper 0 self = (Inr (), self)"
| "run_ticks env batch optim_wrapper (Suc n) self =
     (case run_ticks env batch optim_wrapper n self of
        (Inl e, self1) \<Rightarrow> (Inl e, self1)
      | (Inr u, self1) \<Rightarrow>
         (case train_step env (int n) (batch n) optim_wrapper self1 of
            (Inl e, self2) \<Rightarrow> (Inl e, self2)
          | (Inr log_vars, self2) \<Rightarrow> (Inr (), self2)))"


section \<open>Attributes that an operation leaves alone\<close>

text \<open>\<open>same_setup a b\<close>: the configuration of the model is the same in \<open>a\<close> and \<open>b\<close>.
  \<open>same_pyramid a b\<close>: so are the stage, the pyramids and the noise weights.\<close>

definition same_setup :: "singan \<Rightarrow> singan \<Rightarrow> bool" where
  "same_setup a b =
     (iters_per_scale b = iters_per_scale a \<and> discriminator_steps b = discriminator_steps a
      \<and> generator_steps b = generator_steps a \<and> noise_weight_init b = noise_weight_init a
      \<and> lr_scheduler_args b = lr_scheduler_args a \<and> num_scales b = num_scales a
      \<and> with_ema_gen b = with_ema_gen a \<and> ema_start b = ema_start a
      \<and> loaded_test_pkl b = loaded_test_pkl a \<and> pkl_data b = pkl_data a)"

definition same_pyramid :: "singan \<Rightarrow> singan \<Rightarrow> bool" where
  "same_pyramid a b =
     (curr_stage b = curr_stage a \<and> reals b = reals a \<and> fixed_noises b = fixed_noises a
      \<and> noise_weights b = noise_weights a)"

section \<open>The stage as the specification words it\<close>

text \<open>\<open>floor (i / window)\<close> clipped to \<open>[-1, num_scales - 1]\<close>. It is compared with
  \<open>curr_stage\<close> in the results on the stage.\<close>

definition clipped_stage :: "int \<Rightarrow> int \<Rightarrow> int \<Rightarrow> int" where
  "clipped_stage i window n = max (- 1) (min (i div window) (n - 1))"

section \<open>The phases of \<open>train_step\<close>\<close>

text \<open>The body of \<open>train_step\<close> cut at its statements, for the proofs: what follows the
  training round (\<open>after_train_gan\<close>), what follows the pyramid set-up (\<open>after_setup\<close>)
  and what follows the stage transition (\<open>after_transition\<close>). \<open>train_step\<close> is shown
  below to be their composition.\<close>

definition after_train_gan ::
  "env \<Rightarrow> int \<Rightarrow> tensor dict \<Rightarrow> real dict \<Rightarrow> singan \<Rightarrow> real dict outcome" where
  "after_train_gan env curr_iter inputs_dict log_vars self3 =
     (let log_vars1 = dict_set log_vars ''curr_stage'' (real_of_int (curr_stage self3))
      in case (if (curr_iter + 1) mod (iters_per_scale self3 * discriminator_steps self3) = 0
                  \<and> curr_stage self3 < int (length (reals self3)) - 1
               then update_noise_weight env inputs_dict self3
               else (Inr (), self3)) of
           (Inl e, self4) \<Rightarrow> (Inl e, self4)
         | (Inr u, self4) \<Rightarrow>
            (case step_schedulers curr_iter self4 of
               (Inl e, self5) \<Rightarrow> (Inl e, self5)
             | (Inr u, self5) \<Rightarrow> (Inr log_vars1, self5)))"

definition after_setup ::
  "env \<Rightarrow> int \<Rightarrow> tensor dict \<Rightarrow> optim_wrapper dict \<Rightarrow> singan \<Rightarrow> real dict outcome" where
  "after_setup env curr_iter inputs_dict curr_optimizer_wrapper self2 =
     (case train_gan env curr_iter inputs_dict curr_optimizer_wrapper self2 of
        (Inl e, self3) \<Rightarrow> (Inl e, self3)
      | (Inr log_vars, self3) \<Rightarrow> after_train_gan env curr_iter inputs_dict log_vars self3)"

definition after_transition ::
  "env \<Rightarrow> int \<Rightarrow> tensor dict \<Rightarrow> optim_wrapper dict \<Rightarrow> singan \<Rightarrow> real dict outcome" where
  "after_transition env curr_iter data' optim_wrapper self1 =
     (case dict_get optim_wrapper (''generator_'' @ str_int (curr_stage self1)) of
        Inl e \<Rightarrow> (Inl e, self1)
      | Inr gen_optim \<Rightarrow>
         (case dict_get optim_wrapper (''discriminator_'' @ str_int (curr_stage self1)) of
            Inl e \<Rightarrow> (Inl e, self1)
          | Inr disc_optim \<Rightarrow>
             (case (if curr_iter = 0 \<or> length (reals self1) = 0
                    then setup_pyramid env (data_preprocessor env data') self1
                    else (Inr (), self1)) of
                (Inl e, self2) \<Rightarrow> (Inl e, self2)
              | (Inr u, self2) \<Rightarrow>
                 after_setup env curr_iter (data_preprocessor env data')
                   [(''generator'', gen_optim), (''discriminator'', disc_optim)] self2)))"

section \<open>Example objects\<close>

text \<open>Concrete collaborators, batches and models on which the results below are run:
  images of one pixel, a generator that always draws the pixel \<open>1\<close>, a discriminator
  that scores an image by its pixels, and an optimiser step that adds \<open>1\<close> to every
  parameter.\<close>

definition pixel :: "real \<Rightarrow> tensor" where
  "pixel x = \<lparr>shape = [1, 1, 1, 1], data = [x]\<rparr>"

definition img2 :: "real \<Rightarrow> real \<Rightarrow> tensor" where
  "img2 x y = \<lparr>shape = [1, 1, 1, 2], data = [x, y]\<rparr>"

definition module0 :: module where
  "module0 = \<lparr>params = [1, 2], buffers = [3], requires_grad = True\<rparr>"

definition base0 :: basegan where
  "base0 = \<lparr>generator = module0, discriminator = module0, generator_ema = None,
            with_ema_gen = False, ema_start = 0, generator_steps = 1,
            discriminator_steps = 1\<rparr>"

definition ema0 :: ema_model where
  "ema0 = \<lparr>ema_params = [0, 0], ema_buffers = [0], decay = 1 / 2, update_buffers = False\<rparr>"

definition base_ema :: basegan where
  "base_ema = base0\<lparr>generator_ema := Some ema0, with_ema_gen := True, generator_steps := 2\<rparr>"

definition env0 :: env where
  "env0 = \<lparr>data_preprocessor = (\<lambda>d. d),
           generator_forward = (\<lambda>m inp fns nws mode stage r. pixel 1),
           discriminator_forward = (\<lambda>m t stage. t),
           discriminator_grad = (\<lambda>m t stage. \<lparr>shape = [1, 1, 1, 2], data = [1, 0]\<rparr>),
           check_and_load_prev_weight = (\<lambda>m stage. m),
           update_params = (\<lambda>ow loss g m. m\<lparr>params := map (\<lambda>p. p + 1) (params m)\<rparr>),
           gather_log_vars = (\<lambda>l. case l of [] \<Rightarrow> [] | x # xs \<Rightarrow> x),
           F_interpolate = (\<lambda>t size. t),
           torch_rand = (\<lambda>r n. replicate n (1 / 2)),
           torch_randn = (\<lambda>r n. replicate n (real r + 1)),
           open_pickle = (\<lambda>path. None),
           super_test_step = (\<lambda>self d. (Inr [], self))\<rparr>"

definition one_step :: optim_wrapper where
  "one_step = \<lparr>accumulative_counts = 1\<rparr>"

definition optims0 :: "optim_wrapper dict" where
  "optims0 = [(''generator_0'', one_step), (''discriminator_0'', one_step),
              (''generator_1'', one_step), (''discriminator_1'', one_step)]"

definition stage_optims :: "optim_wrapper dict" where
  "stage_optims = [(''generator'', one_step), (''discriminator'', one_step)]"

definition batch1 :: "tensor dict" where
  "batch1 = [(''input_sample'', pixel 0), (''real_scale0'', pixel 0)]"

definition batch2 :: "tensor dict" where
  "batch2 = [(''input_sample'', pixel 0), (''real_scale0'', pixel 0), (''real_scale1'', pixel 2)]"

text \<open>A model in the middle of stage \<open>0\<close> of a one-image pyramid, with a shadow generator.\<close>

definition at_stage0 :: singan where
  "at_stage0 = (SinGAN_init base_ema None 1 (1 / 10) None None)
                 \<lparr>curr_stage := 0, reals := [pixel 0], fixed_noises := [pixel 5]\<rparr>"

text \<open>A model as \<open>__init__\<close> leaves it, with one iteration for every scale, no learning
  rate schedule, no pickle file and the given \<open>noise_weight_init\<close>.\<close>

definition fresh :: "real \<Rightarrow> singan" where
  "fresh w = SinGAN_init base0 None 1 w None None"

text \<open>The same batch on every iteration, and optimisers whose generator of stage \<open>0\<close>
  accumulates two steps.\<close>

definition batches1 :: "nat \<Rightarrow> tensor dict" where
  "batches1 k = batch1"

definition batches2 :: "nat \<Rightarrow> tensor dict" where
  "batches2 k = batch2"

definition optims_bad :: "optim_wrapper dict" where
  "optims_bad = [(''generator_0'', \<lparr>accumulative_counts = 2\<rparr>), (''discriminator_0'', one_step)]"


section \<open>Models that differ in \<open>num_scales\<close> only\<close>

text \<open>\<open>agree a b\<close>: every attribute but \<open>num_scales\<close> is the same in \<open>a\<close> and \<open>b\<close>.
  \<open>agree_out\<close>: two outcomes are the same result or exception, on models that agree.\<close>

definition agree :: "singan \<Rightarrow> singan \<Rightarrow> bool" where
  "agree a b =
     (generator a = generator b \<and> discriminator a = discriminator b
      \<and> generator_ema a = generator_ema b \<and> with_ema_gen a = with_ema_gen b
      \<and> ema_start a = ema_start b \<and> generator_steps a = generator_steps b
      \<and> discriminator_steps a = discriminator_steps b
      \<and> iters_per_scale a = iters_per_scale b \<and> noise_weight_init a = noise_weight_init b
      \<and> lr_scheduler_args a = lr_scheduler_args b \<and> curr_stage a = curr_stage b
      \<and> noise_weights a = noise_weights b \<and> fixed_noises a = fixed_noises b
      \<and> reals a = reals b \<and> loaded_test_pkl a = loaded_test_pkl b
      \<and> pkl_data a = pkl_data b \<and> gen_scheduler a = gen_scheduler b
      \<and> disc_scheduler a = disc_scheduler b \<and> rng a = rng b \<and> trace a = trace b)"

definition agree_out :: "'a outcome \<Rightarrow> 'a outcome \<Rightarrow> bool" where
  "agree_out x y = (fst x = fst y \<and> agree (snd x) (snd y))"


section \<open>Results on the losses\<close>

lemma sum_list_map2_nth:
  "length xs = length ys \<Longrightarrow> sum_list (map2 f xs ys) = (\<Sum>i<length ys. f (xs ! i) (ys ! i))"
  by (simp add: sum_list_sum_nth atLeast0LessThan)

lemma sum_list_map_upt: "sum_list (map f [0..<n]) = (\<Sum>i<n. f i)"
  by (simp add: interv_sum_list_conv_sum_set_nat atLeast0LessThan)

lemma parse_losses_gen:
  "parse_losses [(''loss_gen'', a), (''loss_mse'', b)] =
     (a + b, [(''loss'', a + b), (''loss_gen'', a), (''loss_mse'', b)])"
  by (simp add: parse_losses_def Let_def)

lemma parse_losses_disc:
  "parse_losses [(''loss_disc_fake'', a), (''loss_disc_real'', b), (''loss_gp'', c)] =
     (a + b + c,
      [(''loss'', a + b + c), (''loss_disc_fake'', a), (''loss_disc_real'', b), (''loss_gp'', c)])"
  by (simp add: parse_losses_def Let_def)

text \<open>
  Claim C4. For every discriminator score tensor \<open>d\<close> on the fresh fake images and every
  reconstruction \<open>r\<close> against the real image \<open>t\<close> of the current stage, the generator
  loss is \<open>- mean d + 10 * mean ((r - t)^2)\<close>: the negated average of the scores plus ten
  times the average squared difference of the elements of \<open>r\<close> and \<open>t\<close>. The tensors
  are not empty and \<open>r\<close> has the shape of \<open>t\<close>.
\<close>

theorem gen_loss_decomposition:
  assumes "list_getitem (reals self) (curr_stage self) = Inr t"
      and "same_shape r t"
      and "data d \<noteq> []" and "data t \<noteq> []"
  shows "map_sum id fst (gen_loss self d r) =
           Inr (- (sum_list (data d) / real (length (data d)))
                + 10 * ((\<Sum>i<length (data t). (data r ! i - data t ! i)\<^sup>2)
                          / real (length (data t))))"
  using assms
  by (simp add: gen_loss_def mse_loss_def mean_def parse_losses_gen sum_list_map2_nth
        same_shape_def)

theorem gen_loss_decomposition_witness:
  "list_getitem (reals ((SinGAN_init base0 None 1 (1 / 10) None None)
                          \<lparr>reals := [pixel 1], curr_stage := 0\<rparr>))
      (curr_stage ((SinGAN_init base0 None 1 (1 / 10) None None)
                          \<lparr>reals := [pixel 1], curr_stage := 0\<rparr>)) = Inr (pixel 1)
   \<and> same_shape (pixel 3) (pixel 1)
   \<and> data \<lparr>shape = [2], data = [1, 3]\<rparr> \<noteq> [] \<and> data (pixel 1) \<noteq> []
   \<and> map_sum id fst
        (gen_loss ((SinGAN_init base0 None 1 (1 / 10) None None)
                     \<lparr>reals := [pixel 1], curr_stage := 0\<rparr>)
           \<lparr>shape = [2], data = [1, 3]\<rparr> (pixel 3)) = Inr 38"
proof -
  let ?self = "(SinGAN_init base0 None 1 (1 / 10) None None)\<lparr>reals := [pixel 1], curr_stage := 0\<rparr>"
  have h1: "list_getitem (reals ?self) (curr_stage ?self) = Inr (pixel 1)"
    by (simp add: list_getitem_def)
  have h2: "same_shape (pixel 3) (pixel 1)"
    by (simp add: same_shape_def pixel_def)
  have h3: "data \<lparr>shape = [2], data = [1, 3]\<rparr> \<noteq> []" by simp
  have h4: "data (pixel 1) \<noteq> []" by (simp add: pixel_def)
  from gen_loss_decomposition [OF h1 h2 h3 h4] h1 h2 h3 h4
  show ?thesis by (simp add: pixel_def)
qed

lemma gradients_penalty_eq:
  assumes "shape g = gb # gc # grest"
  shows "gradients_penalty g =
           Inr ((\<Sum>k<gb * prod_list grest.
                   (sqrt (\<Sum>ch<gc. (data g ! ((k div prod_list grest * gc + ch) * prod_list grest
                                                + k mod prod_list grest))\<^sup>2) - 1)\<^sup>2)
                / real (gb * prod_list grest))"
  using assms
  by (simp add: gradients_penalty_def norm2_dim1_def Let_def mean_def sum_list_map_upt comp_def)

text \<open>
  Claim C5, as the code has it. The discriminator loss is the mean fake score minus the
  mean real score plus \<open>0.1\<close> times the gradient penalty. The penalty is taken from the
  gradient of the discriminator at the interpolated images; it is the average, over every
  sample and every pixel position, of \<open>(n - 1)^2\<close> where \<open>n\<close> is the 2-norm of the
  gradient over the channels at that position. Sample \<open>s\<close> of the interpolated images is
  \<open>alpha s * real + (1 - alpha s) * fake\<close>, and \<open>alpha\<close> holds one coefficient for
  every sample, drawn by one call of \<open>torch.rand\<close> (whose distribution is the library's
  and is not modelled).
\<close>

theorem disc_loss_decomposition:
  assumes "shape real_data = [b, c, h, w]" and "same_shape fake_data real_data"
      and "interpolates =
             \<lparr>shape = [b, c, h, w],
              data = map (\<lambda>k. torch_rand env (rng self) b ! (k div (c * h * w))
                                * (data real_data ! k)
                              + (1 - torch_rand env (rng self) b ! (k div (c * h * w)))
                                * (data fake_data ! k))
                         [0..<length (data real_data)]\<rparr>"
      and "gradients = discriminator_grad env (discriminator self) interpolates (curr_stage self)"
      and "shape gradients = gb # gc # grest"
      and "data f \<noteq> []" and "data r \<noteq> []" and "gb * prod_list grest \<noteq> 0"
  shows "map_sum id fst (fst (disc_loss env self f r fake_data real_data)) =
           Inr (sum_list (data f) / real (length (data f))
                - sum_list (data r) / real (length (data r))
                + 0.1 * ((\<Sum>k<gb * prod_list grest.
                            (sqrt (\<Sum>ch<gc. (data gradients
                                                ! ((k div prod_list grest * gc + ch)
                                                     * prod_list grest
                                                   + k mod prod_list grest))\<^sup>2) - 1)\<^sup>2)
                         / real (gb * prod_list grest)))"
proof -
  have i: "interpolate_alpha (torch_rand env (rng self) b) real_data fake_data = Inr interpolates"
    using assms(1,2,3) by (simp add: interpolate_alpha_def Let_def)
  show ?thesis
    using assms(1) i assms(4) gradients_penalty_eq[OF assms(5)]
    by (simp add: disc_loss_def Let_def mean_def parse_losses_disc)
qed

theorem disc_loss_decomposition_witness:
  "shape (img2 0 0) = [1, 1, 1, 2] \<and> same_shape (img2 0 0) (img2 0 0)
   \<and> shape (discriminator_grad env0
               (discriminator (SinGAN_init base0 None 1 (1 / 10) None None))
               \<lparr>shape = [1, 1, 1, 2], data = [0, 0]\<rparr>
               (curr_stage (SinGAN_init base0 None 1 (1 / 10) None None))) = [1, 1, 1, 2]
   \<and> data (pixel 0) \<noteq> [] \<and> (1::nat) * prod_list [1, 2] \<noteq> 0
   \<and> map_sum id fst
        (fst (disc_loss env0 (SinGAN_init base0 None 1 (1 / 10) None None)
                (pixel 0) (pixel 0) (img2 0 0) (img2 0 0))) = Inr (1 / 20)"
proof -
  let ?self = "SinGAN_init base0 None 1 (1 / 10) None None"
  let ?x = "\<lparr>shape = [1, 1, 1, 2],
             data = map (\<lambda>k. torch_rand env0 (rng ?self) 1 ! (k div (1 * 1 * 2))
                               * (data (img2 0 0) ! k)
                             + (1 - torch_rand env0 (rng ?self) 1 ! (k div (1 * 1 * 2)))
                               * (data (img2 0 0) ! k))
                        [0..<length (data (img2 0 0))]\<rparr>"
  let ?g = "discriminator_grad env0 (discriminator ?self) ?x (curr_stage ?self)"
  have h1: "shape (img2 0 0) = [1, 1, 1, 2]" by (simp add: img2_def)
  have h2: "same_shape (img2 0 0) (img2 0 0)" by (simp add: same_shape_def)
  have h5: "shape ?g = [1, 1, 1, 2]" by (simp add: env0_def)
  have h6: "data (pixel 0) \<noteq> []" by (simp add: pixel_def)
  have h8: "(1::nat) * prod_list [1, 2] \<noteq> 0" by simp
  have g: "?g = \<lparr>shape = [1, 1, 1, 2], data = [1, 0]\<rparr>" by (simp add: env0_def)
  from disc_loss_decomposition [OF h1 h2 refl refl h5 h6 h6 h8]
  have "map_sum id fst (fst (disc_loss env0 ?self (pixel 0) (pixel 0) (img2 0 0) (img2 0 0)))
          = Inr (1 / 20)"
    unfolding g by (simp add: pixel_def numeral_2_eq_2)
  with h1 h2 h6 h8 show ?thesis by (simp add: env0_def)
qed

text \<open>The specification's wording of the penalty, one norm of the whole gradient for
  every sample, gives another value: for one sample whose gradient is \<open>1\<close> at one pixel and
  \<open>0\<close> at the other, the code's loss is \<open>1/20\<close> where the worded one is \<open>0\<close>.\<close>

theorem disc_loss_penalty_counterexample:
  "map_sum id fst (fst (disc_loss env0 (SinGAN_init base0 None 1 (1 / 10) None None)
       (pixel 0) (pixel 0) (img2 0 0) (img2 0 0))) = Inr (1 / 20)
   \<and> mean (pixel 0) - mean (pixel 0)
       + 0.1 * penalty_per_sample
           (discriminator_grad env0 (discriminator (SinGAN_init base0 None 1 (1 / 10) None None))
              (img2 0 0) (curr_stage (SinGAN_init base0 None 1 (1 / 10) None None))) = 0"
  by (simp add: disc_loss_def img2_def pixel_def interpolate_alpha_def same_shape_def Let_def
        env0_def parse_losses_disc mean_def gradients_penalty_def norm2_dim1_def
        penalty_per_sample_def numeral_2_eq_2)


section \<open>Results on the fixed-noise pyramid\<close>

lemma shape_hw_last2:
  assumes "2 \<le> length (shape r)"
  shows "\<exists>h w. shape_hw r = Inr (h, w) \<and> last2 (shape r) = [h, w]"
proof -
  from assms obtain w h ys where r: "rev (shape r) = w # h # ys"
    by (cases "rev (shape r)"; cases "tl (rev (shape r))") (auto simp: Suc_le_eq)
  then have s: "shape r = rev ys @ [h, w]"
    by (metis append.assoc append_Cons append_Nil rev.simps(2) rev_rev_ident)
  show ?thesis using r s by (simp add: shape_hw_def last2_def)
qed

lemma construct_loop_tail:
  "0 < i \<Longrightarrow> \<forall>r\<in>set rs. 2 \<le> length (shape r) \<Longrightarrow>
     construct_loop env i rs self =
       (Inr (), self\<lparr>fixed_noises := fixed_noises self @ map zeros_like rs\<rparr>)"
proof (induction rs arbitrary: i self)
  case Nil
  then show ?case by simp
next
  case (Cons r rs)
  from Cons.prems obtain h w where "shape_hw r = Inr (h, w)"
    using shape_hw_last2[of r] by auto
  then show ?case using Cons.prems Cons.IH[of "Suc i"] by (simp add: Let_def)
qed

text \<open>
  Claim C7. Built for a model that has no fixed noise yet, from a real pyramid of \<open>n\<close>
  images of at least two dimensions, the fixed-noise pyramid has exactly \<open>n\<close> elements.
  Element \<open>0\<close> has the shape \<open>(1, 1, h, w)\<close> for the height and width of the real image
  of scale \<open>0\<close>, and its \<open>h * w\<close> values are the ones the random generator gives at its
  current position, which the construction advances (so the next construction reads
  other values). Every element at an index \<open>1 \<dots> n - 1\<close> has the shape of its real image
  and only zeros.
\<close>

theorem construct_fixed_noises_pyramid:
  assumes "fixed_noises self = []"
      and "\<forall>r\<in>set (reals self). 2 \<le> length (shape r)"
  shows "fst (construct_fixed_noises env self) = Inr ()
         \<and> reals (snd (construct_fixed_noises env self)) = reals self
         \<and> length (fixed_noises (snd (construct_fixed_noises env self))) = length (reals self)
         \<and> (reals self \<noteq> [] \<longrightarrow>
              shape (fixed_noises (snd (construct_fixed_noises env self)) ! 0)
                = [1, 1] @ last2 (shape (reals self ! 0))
              \<and> data (fixed_noises (snd (construct_fixed_noises env self)) ! 0)
                  = torch_randn env (rng self) (prod_list (last2 (shape (reals self ! 0))))
              \<and> rng (snd (construct_fixed_noises env self)) = Suc (rng self))
         \<and> (\<forall>i. 0 < i \<and> i < length (reals self) \<longrightarrow>
              shape (fixed_noises (snd (construct_fixed_noises env self)) ! i)
                = shape (reals self ! i)
              \<and> data (fixed_noises (snd (construct_fixed_noises env self)) ! i)
                  = replicate (length (data (reals self ! i))) 0)"
proof (cases "reals self")
  case Nil
  then show ?thesis using assms by (simp add: construct_fixed_noises_def)
next
  case (Cons r0 rest)
  from assms(2) Cons obtain h w where hw: "shape_hw r0 = Inr (h, w)" "last2 (shape r0) = [h, w]"
    using shape_hw_last2[of r0] by auto
  have rest: "\<forall>r\<in>set rest. 2 \<le> length (shape r)" using assms(2) Cons by simp
  show ?thesis
    using Cons hw assms(1)
    by (simp add: construct_fixed_noises_def Let_def construct_loop_tail[OF _ rest] nth_Cons
          zeros_like_def split: nat.splits)
qed

theorem construct_fixed_noises_pyramid_witness:
  "fixed_noises ((SinGAN_init base0 None 1 (1 / 10) None None)\<lparr>reals := [img2 7 8, pixel 9]\<rparr>) = []
   \<and> 2 \<le> length (shape (img2 7 8)) \<and> 2 \<le> length (shape (pixel 9))
   \<and> fst (construct_fixed_noises env0
             ((SinGAN_init base0 None 1 (1 / 10) None None)\<lparr>reals := [img2 7 8, pixel 9]\<rparr>))
       = Inr ()
   \<and> fixed_noises (snd (construct_fixed_noises env0
             ((SinGAN_init base0 None 1 (1 / 10) None None)\<lparr>reals := [img2 7 8, pixel 9]\<rparr>)))
       = [img2 1 1, pixel 0]"
proof -
  let ?self = "(SinGAN_init base0 None 1 (1 / 10) None None)\<lparr>reals := [img2 7 8, pixel 9]\<rparr>"
  have h1: "fixed_noises ?self = []" by (simp add: SinGAN_init_def singan.defs basegan.defs)
  have h2: "\<forall>r\<in>set (reals ?self). 2 \<le> length (shape r)" by (simp add: img2_def pixel_def)
  have v: "fixed_noises (snd (construct_fixed_noises env0 ?self)) = [img2 1 1, pixel 0]"
    by (simp add: construct_fixed_noises_def SinGAN_init_def singan.defs basegan.defs img2_def
          pixel_def shape_hw_def zeros_like_def env0_def numeral_2_eq_2)
  from construct_fixed_noises_pyramid [OF h1 h2, of env0] h1 v
  show ?thesis by (simp add: img2_def pixel_def)
qed

section \<open>Results on the test pickle\<close>

text \<open>
  Claim C10. When \<open>test_pkl_data\<close> is \<open>None\<close> and nothing has been loaded, a call of
  \<open>test_step\<close> calls \<open>load_test_pkl\<close>, which returns without an exception and leaves
  every attribute as it was (only the ghost trace records the call): the fixed noises,
  the noise weights, the stage and \<open>loaded_test_pkl\<close>, which stays \<open>False\<close>. The step then
  hands the unchanged model to the parent's \<open>test_step\<close>. As the parent's step does not
  assign \<open>pkl_data\<close> or \<open>loaded_test_pkl\<close>, the same holds again for the next call.
\<close>

theorem load_test_pkl_without_path:
  assumes "pkl_data self = None" and "\<not> loaded_test_pkl self"
      and "\<forall>s d. pkl_data (snd (super_test_step env s d)) = pkl_data s
                 \<and> loaded_test_pkl (snd (super_test_step env s d)) = loaded_test_pkl s"
  shows "load_test_pkl env self = (Inr (), self\<lparr>trace := trace self @ [LoadTestPkl]\<rparr>)
         \<and> test_step env data' self
             = super_test_step env (self\<lparr>trace := trace self @ [LoadTestPkl]\<rparr>) data'
         \<and> pkl_data (snd (test_step env data' self)) = None
         \<and> \<not> loaded_test_pkl (snd (test_step env data' self))"
  using assms by (simp add: load_test_pkl_def test_step_def Let_def)

theorem load_test_pkl_without_path_witness:
  "pkl_data (SinGAN_init base0 None 1 (1 / 10) None None) = None
   \<and> \<not> loaded_test_pkl (SinGAN_init base0 None 1 (1 / 10) None None)
   \<and> (\<forall>s d. pkl_data (snd (super_test_step env0 s d)) = pkl_data s
              \<and> loaded_test_pkl (snd (super_test_step env0 s d)) = loaded_test_pkl s)
   \<and> curr_stage (SinGAN_init base0 None 1 (1 / 10) None None) = - 1
   \<and> fixed_noises (SinGAN_init base0 None 1 (1 / 10) None None) = []
   \<and> fst (test_step env0 batch1 (SinGAN_init base0 None 1 (1 / 10) None None)) = Inr []
   \<and> \<not> loaded_test_pkl (snd (test_step env0 batch1 (SinGAN_init base0 None 1 (1 / 10) None None)))"
proof -
  let ?self = "SinGAN_init base0 None 1 (1 / 10) None None"
  have h1: "pkl_data ?self = None" by (simp add: SinGAN_init_def singan.defs basegan.defs)
  have h2: "\<not> loaded_test_pkl ?self" by (simp add: SinGAN_init_def singan.defs basegan.defs)
  have h3: "\<forall>s d. pkl_data (snd (super_test_step env0 s d)) = pkl_data s
                 \<and> loaded_test_pkl (snd (super_test_step env0 s d)) = loaded_test_pkl s"
    by (simp add: env0_def)
  have h4: "curr_stage ?self = - 1 \<and> fixed_noises ?self = []"
    by (simp add: SinGAN_init_def singan.defs basegan.defs)
  from load_test_pkl_without_path [OF h1 h2 h3, of batch1] h1 h2 h3 h4
  show ?thesis by (simp add: env0_def)
qed


section \<open>Results on \<open>train_gan\<close>\<close>

lemma same_setup_trans: "same_setup a b \<Longrightarrow> same_setup b c \<Longrightarrow> same_setup a c"
  by (simp add: same_setup_def)

lemma same_pyramid_trans: "same_pyramid a b \<Longrightarrow> same_pyramid b c \<Longrightarrow> same_pyramid a c"
  by (simp add: same_pyramid_def)

lemma disc_loss_frame:
  "disc_loss env self f r fk rl = (res, self') \<Longrightarrow>
     same_setup self self' \<and> same_pyramid self self'
     \<and> generator self' = generator self \<and> discriminator self' = discriminator self
     \<and> generator_ema self' = generator_ema self \<and> trace self' = trace self"
  by (auto simp: disc_loss_def Let_def same_setup_def same_pyramid_def
        split: list.splits sum.splits)

lemma train_discriminator_frame:
  "train_discriminator env inputs ow self = (res, self') \<Longrightarrow>
     same_setup self self' \<and> same_pyramid self self'
     \<and> generator self' = generator self
     \<and> requires_grad (discriminator self') = requires_grad (discriminator self)
     \<and> generator_ema self' = generator_ema self
     \<and> (\<not> isl res \<longrightarrow> trace self' = trace self @ [DiscriminatorRound (curr_stage self)])"
  by (auto simp: train_discriminator_def Let_def stepped_def same_setup_def same_pyramid_def
        split: sum.splits prod.splits dest!: disc_loss_frame)

lemma train_discriminator_index:
  "train_discriminator env inputs ow self = (Inr logs, self') \<Longrightarrow>
     \<exists>t. list_getitem (reals self) (curr_stage self) = Inr t"
  by (auto simp: train_discriminator_def Let_def split: sum.splits prod.splits)

lemma train_generator_frame:
  "train_generator env inputs ow self = (res, self') \<Longrightarrow>
     same_setup self self' \<and> same_pyramid self self'
     \<and> discriminator self' = discriminator self
     \<and> generator_ema self' = generator_ema self
     \<and> (\<not> isl res \<longrightarrow> trace self' = trace self @ [GeneratorRound (curr_stage self)])"
  by (auto simp: train_generator_def Let_def stepped_def same_setup_def same_pyramid_def
        split: sum.splits prod.splits)

lemma generator_rounds_frame:
  "generator_rounds env inputs ow n acc self = (res, self') \<Longrightarrow>
     same_setup self self' \<and> same_pyramid self self'
     \<and> discriminator self' = discriminator self
     \<and> generator_ema self' = generator_ema self
     \<and> (\<not> isl res \<longrightarrow>
          trace self' = trace self @ replicate n (GeneratorRound (curr_stage self)))"
proof (induction n arbitrary: acc self)
  case 0
  then show ?case by (auto simp: same_setup_def same_pyramid_def)
next
  case (Suc n)
  show ?case
  proof (cases "train_generator env inputs ow self")
    case (Pair r1 s1)
    note f = train_generator_frame[OF Pair]
    show ?thesis
    proof (cases r1)
      case (Inl e)
      with Pair Suc.prems f show ?thesis by auto
    next
      case (Inr lv)
      with Pair Suc.prems
      have g: "generator_rounds env inputs ow n (acc @ [lv]) s1 = (res, self')" by simp
      from Suc.IH[OF g] f Inr show ?thesis
        by (auto simp: same_pyramid_def replicate_append_same
              intro: same_setup_trans same_pyramid_trans)
    qed
  qed
qed

lemma ema_frame:
  "ema_after_generator_update i dacc self = (res, self') \<Longrightarrow>
     same_setup self self' \<and> same_pyramid self self'
     \<and> generator self' = generator self \<and> discriminator self' = discriminator self
     \<and> (\<exists>ev. trace self' = trace self @ ev
               \<and> set ev \<subseteq> {EmaUpdateParameters, EmaSyncBuffers, EmaSyncParameters})"
  by (auto simp: ema_after_generator_update_def Let_def same_setup_def same_pyramid_def
        split: if_splits option.splits)

lemma ema_effect:
  assumes "ema_after_generator_update i dacc self = (Inr u, self')"
  shows "(\<not> with_ema_gen self \<longrightarrow> generator_ema self' = generator_ema self)
       \<and> (with_ema_gen self \<longrightarrow>
            (\<exists>ema. generator_ema self = Some ema
               \<and> generator_ema self' =
                   Some (if ema_start self * discriminator_steps self * dacc \<le> i + 1
                         then (if update_buffers ema then update_parameters ema (generator self)
                               else sync_buffers (update_parameters ema (generator self))
                                      (generator self))
                         else sync_parameters ema (generator self))))"
  using assms
  by (auto simp: ema_after_generator_update_def Let_def update_parameters_def
        split: if_splits option.splits)

text \<open>What a call of \<open>train_gan\<close> that returns went through.\<close>

lemma train_gan_success:
  assumes "train_gan env curr_iter inputs ow self = (Inr log_vars, self')"
      and "dict_get ow ''discriminator'' = Inr dw"
  shows "\<exists>lv s1. train_discriminator env inputs dw self = (Inr lv, s1)
           \<and> discriminator_steps self * accumulative_counts dw \<noteq> 0
           \<and> (if (curr_iter + 1) mod (discriminator_steps self * accumulative_counts dw) = 0
               then \<exists>gw lvs s3.
                      dict_get ow ''generator'' = Inr gw
                      \<and> generator_rounds env inputs gw
                           (nat (generator_steps self * accumulative_counts gw)) []
                           (set_requires_grad False s1) = (Inr lvs, s3)
                      \<and> ema_after_generator_update curr_iter (accumulative_counts dw)
                           (set_requires_grad True s3) = (Inr (), self')
               else self' = s1)"
proof -
  obtain r1 s1 where td: "train_discriminator env inputs dw self = (r1, s1)"
    by (cases "train_discriminator env inputs dw self")
  note f1 = train_discriminator_frame[OF td]
  from assms td obtain lv where r1: "r1 = Inr lv"
    by (cases r1) (auto simp: train_gan_def)
  have ds: "discriminator_steps s1 = discriminator_steps self"
    "generator_steps s1 = generator_steps self"
    using f1 by (auto simp: same_setup_def)
  have gs: "generator_steps (set_requires_grad False s1) = generator_steps self"
    using ds by (simp add: set_requires_grad_def)
  show ?thesis
    using assms td r1 ds gs
    by (auto simp: train_gan_def Let_def split: if_splits sum.splits prod.splits)
qed

lemma train_gan_frame:
  assumes "train_gan env curr_iter inputs ow self = (res, self')"
  shows "same_setup self self' \<and> same_pyramid self self'"
proof (cases "dict_get ow ''discriminator''")
  case (Inl e)
  with assms show ?thesis by (auto simp: train_gan_def same_setup_def same_pyramid_def)
next
  case (Inr dw)
  obtain r1 s1 where td: "train_discriminator env inputs dw self = (r1, s1)"
    by (cases "train_discriminator env inputs dw self")
  note f1 = train_discriminator_frame[OF td]
  let ?s2 = "set_requires_grad False s1"
  have f2: "same_setup self ?s2 \<and> same_pyramid self ?s2"
    using f1 by (simp add: set_requires_grad_def same_setup_def same_pyramid_def)
  show ?thesis
  proof (cases "\<exists>gw. dict_get ow ''generator'' = Inr gw")
    case False
    with assms Inr td f1 f2 show ?thesis
      by (cases "dict_get ow ''generator''")
         (auto simp: train_gan_def Let_def split: if_splits sum.splits prod.splits)
  next
    case True
    then obtain gw where gw: "dict_get ow ''generator'' = Inr gw" by blast
    let ?n = "nat (generator_steps ?s2 * accumulative_counts gw)"
    obtain r3 s3 where gr: "generator_rounds env inputs gw ?n [] ?s2 = (r3, s3)"
      by (cases "generator_rounds env inputs gw ?n [] ?s2")
    note f3 = generator_rounds_frame[OF gr]
    let ?s4 = "set_requires_grad True s3"
    have f4: "same_setup self ?s4 \<and> same_pyramid self ?s4"
      using f2 f3 by (simp add: set_requires_grad_def same_setup_def same_pyramid_def)
    obtain r5 s5 where em: "ema_after_generator_update curr_iter (accumulative_counts dw) ?s4
                              = (r5, s5)"
      by (cases "ema_after_generator_update curr_iter (accumulative_counts dw) ?s4")
    note f5 = ema_frame[OF em]
    have f6: "same_setup self s5 \<and> same_pyramid self s5"
      using f4 f5 by (auto intro: same_setup_trans same_pyramid_trans)
    have f7: "same_setup self s3 \<and> same_pyramid self s3"
      using f2 f3 by (auto intro: same_setup_trans same_pyramid_trans)
    from assms Inr td gw gr em f1 f2 f6 f7 show ?thesis
      by (auto simp: train_gan_def Let_def split: if_splits sum.splits prod.splits)
  qed
qed


lemmas run_defs =
  train_gan_def train_discriminator_def train_generator_def disc_loss_def gen_loss_def
  gradients_penalty_def norm2_dim1_def interpolate_alpha_def mse_loss_def same_shape_def
  mean_def parse_losses_def stepped_def graph_of_def set_requires_grad_def
  ema_after_generator_update_def update_parameters_def sync_buffers_def sync_parameters_def
  blend_def dict_get_def dict_update_def dict_pop_def list_getitem_def Let_def

lemmas example_defs =
  at_stage0_def SinGAN_init_def singan.defs basegan.defs base_ema_def base0_def module0_def
  ema0_def env0_def stage_optims_def optims0_def one_step_def batch1_def batch2_def pixel_def
  img2_def

lemma at_stage0_tick_returns:
  "\<not> isl (fst (train_gan env0 0 batch1 stage_optims at_stage0))"
  by (simp add: run_defs example_defs numeral_2_eq_2)



lemma blend_nth:
  "length (blend d xs ys) = min (length xs) (length ys)
   \<and> (\<forall>j<length (blend d xs ys). blend d xs ys ! j = d * xs ! j + (1 - d) * ys ! j)"
  by (simp add: blend_def)

text \<open>
  Claim C6. On a tick that \<open>train_gan\<close> completes: when generator update rounds ran
  (\<open>(i + 1) mod (discriminator_steps * disc_accum_count) = 0\<close>) and EMA is enabled, then,
  if the iteration count \<open>i + 1\<close> has reached \<open>ema_start * discriminator_steps *
  disc_accum_count\<close>, every shadow parameter becomes \<open>decay * shadow_prev + (1 - decay) *
  generator_current\<close>, and with buffer updating disabled the shadow buffers become the
  buffers of the generator; before that threshold the shadow parameters become the
  parameters of the generator (and the shadow buffers stay). On a tick without generator
  rounds, or with EMA disabled, the shadow is untouched. The generator meant is the one
  the tick's generator rounds have produced.
\<close>

theorem train_gan_ema:
  assumes "\<not> isl (fst (train_gan env curr_iter inputs ow self))"
      and "dict_get ow ''discriminator'' = Inr dw"
  shows "((curr_iter + 1) mod (discriminator_steps self * accumulative_counts dw) \<noteq> 0
            \<or> \<not> with_ema_gen self
          \<longrightarrow> generator_ema (snd (train_gan env curr_iter inputs ow self)) = generator_ema self)
       \<and> ((curr_iter + 1) mod (discriminator_steps self * accumulative_counts dw) = 0
            \<and> with_ema_gen self
          \<longrightarrow> (\<exists>ema ema'.
                 generator_ema self = Some ema
                 \<and> generator_ema (snd (train_gan env curr_iter inputs ow self)) = Some ema'
                 \<and> (if ema_start self * discriminator_steps self * accumulative_counts dw
                         \<le> curr_iter + 1
                     then length (ema_params ema')
                            = min (length (ema_params ema))
                                (length (params (generator
                                   (snd (train_gan env curr_iter inputs ow self)))))
                          \<and> (\<forall>j<length (ema_params ema').
                                ema_params ema' ! j
                                  = decay ema * ema_params ema ! j
                                    + (1 - decay ema)
                                      * params (generator
                                          (snd (train_gan env curr_iter inputs ow self))) ! j)
                          \<and> (\<not> update_buffers ema
                               \<longrightarrow> ema_buffers ema'
                                     = buffers (generator
                                         (snd (train_gan env curr_iter inputs ow self))))
                     else ema_params ema'
                            = params (generator (snd (train_gan env curr_iter inputs ow self)))
                          \<and> ema_buffers ema' = ema_buffers ema)))"
proof -
  obtain res self' where tg: "train_gan env curr_iter inputs ow self = (res, self')"
    by (cases "train_gan env curr_iter inputs ow self")
  with assms(1) obtain log_vars where res: "res = Inr log_vars" by (cases res) auto
  from train_gan_success[OF tg[unfolded res] assms(2)] obtain lv s1 where
    td: "train_discriminator env inputs dw self = (Inr lv, s1)" and
    rest: "if (curr_iter + 1) mod (discriminator_steps self * accumulative_counts dw) = 0
           then \<exists>gw lvs s3.
                  dict_get ow ''generator'' = Inr gw
                  \<and> generator_rounds env inputs gw
                       (nat (generator_steps self * accumulative_counts gw)) []
                       (set_requires_grad False s1) = (Inr lvs, s3)
                  \<and> ema_after_generator_update curr_iter (accumulative_counts dw)
                       (set_requires_grad True s3) = (Inr (), self')
           else self' = s1"
    by blast
  note f1 = train_discriminator_frame[OF td]
  have goal: "((curr_iter + 1) mod (discriminator_steps self * accumulative_counts dw) \<noteq> 0
            \<or> \<not> with_ema_gen self
          \<longrightarrow> generator_ema self' = generator_ema self)
       \<and> ((curr_iter + 1) mod (discriminator_steps self * accumulative_counts dw) = 0
            \<and> with_ema_gen self
          \<longrightarrow> (\<exists>ema ema'.
                 generator_ema self = Some ema \<and> generator_ema self' = Some ema'
                 \<and> (if ema_start self * discriminator_steps self * accumulative_counts dw
                         \<le> curr_iter + 1
                     then length (ema_params ema')
                            = min (length (ema_params ema)) (length (params (generator self')))
                          \<and> (\<forall>j<length (ema_params ema').
                                ema_params ema' ! j
                                  = decay ema * ema_params ema ! j
                                    + (1 - decay ema) * params (generator self') ! j)
                          \<and> (\<not> update_buffers ema
                               \<longrightarrow> ema_buffers ema' = buffers (generator self'))
                     else ema_params ema' = params (generator self')
                          \<and> ema_buffers ema' = ema_buffers ema)))"
  proof (cases "(curr_iter + 1) mod (discriminator_steps self * accumulative_counts dw) = 0")
    case False
    with rest f1 show ?thesis by simp
  next
    case True
    from rest True obtain gw lvs s3 where
      gr: "generator_rounds env inputs gw (nat (generator_steps self * accumulative_counts gw)) []
             (set_requires_grad False s1) = (Inr lvs, s3)" and
      em: "ema_after_generator_update curr_iter (accumulative_counts dw)
             (set_requires_grad True s3) = (Inr (), self')"
      by auto
    note f3 = generator_rounds_frame[OF gr]
    note f5 = ema_frame[OF em]
    note e5 = ema_effect[OF em]
    let ?s4 = "set_requires_grad True s3"
    have k: "with_ema_gen ?s4 = with_ema_gen self" "ema_start ?s4 = ema_start self"
       "discriminator_steps ?s4 = discriminator_steps self"
       "generator_ema ?s4 = generator_ema self" "generator ?s4 = generator self'"
      using f1 f3 f5 by (auto simp: set_requires_grad_def same_setup_def)
    show ?thesis
    proof (cases "with_ema_gen self")
      case False
      with e5 k show ?thesis by simp
    next
      case w: True
      with e5 k obtain ema where
        ema: "generator_ema self = Some ema" and
        ema': "generator_ema self' =
                 Some (if ema_start self * discriminator_steps self * accumulative_counts dw
                            \<le> curr_iter + 1
                       then (if update_buffers ema then update_parameters ema (generator self')
                             else sync_buffers (update_parameters ema (generator self'))
                                    (generator self'))
                       else sync_parameters ema (generator self'))"
        by auto
      show ?thesis
        using True w ema ema' blend_nth[of "decay ema" "ema_params ema" "params (generator self')"]
        by (auto simp: update_parameters_def sync_buffers_def sync_parameters_def)
    qed
  qed
  show ?thesis unfolding tg snd_conv by (rule goal)
qed

lemma at_stage0_tick_ema:
  "generator_ema (snd (train_gan env0 0 batch1 stage_optims at_stage0)) =
     Some \<lparr>ema_params = [3 / 2, 2], ema_buffers = [3], decay = 1 / 2, update_buffers = False\<rparr>
   \<and> params (generator (snd (train_gan env0 0 batch1 stage_optims at_stage0))) = [3, 4]"
  by (simp add: run_defs example_defs numeral_2_eq_2)

theorem train_gan_ema_witness:
  "\<not> isl (fst (train_gan env0 0 batch1 stage_optims at_stage0))
   \<and> dict_get stage_optims ''discriminator'' = Inr one_step
   \<and> (0 + 1) mod (discriminator_steps at_stage0 * accumulative_counts one_step) = 0
   \<and> with_ema_gen at_stage0
   \<and> ema_start at_stage0 * discriminator_steps at_stage0 * accumulative_counts one_step \<le> 0 + 1
   \<and> generator_ema at_stage0 = Some ema0
   \<and> params (generator (snd (train_gan env0 0 batch1 stage_optims at_stage0))) = [3, 4]
   \<and> generator_ema (snd (train_gan env0 0 batch1 stage_optims at_stage0)) =
        Some \<lparr>ema_params = [3 / 2, 2], ema_buffers = [3], decay = 1 / 2, update_buffers = False\<rparr>"
proof -
  have h2: "dict_get stage_optims ''discriminator'' = Inr one_step"
    by (simp add: dict_get_def stage_optims_def)
  have c: "(0 + 1) mod (discriminator_steps at_stage0 * accumulative_counts one_step) = 0"
    "with_ema_gen at_stage0"
    "ema_start at_stage0 * discriminator_steps at_stage0 * accumulative_counts one_step \<le> 0 + 1"
    "generator_ema at_stage0 = Some ema0"
    by (simp_all add: example_defs)
  from train_gan_ema [OF at_stage0_tick_returns h2] c at_stage0_tick_ema at_stage0_tick_returns h2
  show ?thesis by simp
qed


section \<open>Results on \<open>train_step\<close>\<close>

lemma stage_transition_frame:
  "stage_transition env ow self = (res, self') \<Longrightarrow>
     same_setup self self' \<and> curr_stage self' = curr_stage self + 1
     \<and> reals self' = reals self \<and> fixed_noises self' = fixed_noises self
     \<and> noise_weights self' = noise_weights self"
  by (auto simp: stage_transition_def Let_def same_setup_def split: sum.splits if_splits)

lemma construct_loop_frame:
  "construct_loop env i rs self = (res, self') \<Longrightarrow>
     same_setup self self' \<and> curr_stage self' = curr_stage self
     \<and> reals self' = reals self \<and> noise_weights self' = noise_weights self"
proof (induction rs arbitrary: i self)
  case Nil
  then show ?case by (auto simp: same_setup_def)
next
  case (Cons r rs)
  show ?case
  proof (cases "shape_hw r")
    case (Inl e)
    with Cons.prems show ?thesis by (auto simp: same_setup_def)
  next
    case (Inr hw)
    obtain h w where hw: "hw = (h, w)" by (cases hw)
    show ?thesis
    proof (cases "i = 0")
      case True
      with Cons.prems Inr hw
      have "construct_loop env (Suc i) rs
              (self\<lparr>fixed_noises := fixed_noises self
                        @ [\<lparr>shape = [1, 1, h, w], data = torch_randn env (rng self) (h * w)\<rparr>],
                     rng := Suc (rng self)\<rparr>) = (res, self')"
        by (simp add: Let_def)
      from Cons.IH[OF this] show ?thesis by (simp add: same_setup_def)
    next
      case False
      with Cons.prems Inr hw
      have "construct_loop env (Suc i) rs
              (self\<lparr>fixed_noises := fixed_noises self @ [zeros_like r]\<rparr>) = (res, self')"
        by (simp add: Let_def)
      from Cons.IH[OF this] show ?thesis by (simp add: same_setup_def)
    qed
  qed
qed

lemma setup_pyramid_frame:
  "setup_pyramid env inputs self = (res, self') \<Longrightarrow>
     same_setup self self' \<and> curr_stage self' = curr_stage self
     \<and> noise_weights self' = noise_weights self"
  by (auto simp: setup_pyramid_def construct_fixed_noises_def Let_def same_setup_def
        split: sum.splits dest!: construct_loop_frame)

lemma update_noise_weight_frame:
  "update_noise_weight env inputs self = (res, self') \<Longrightarrow>
     same_setup self self' \<and> curr_stage self' = curr_stage self
     \<and> reals self' = reals self \<and> fixed_noises self' = fixed_noises self
     \<and> generator self' = generator self \<and> rng self' = rng self"
  by (auto simp: update_noise_weight_def Let_def same_setup_def split: sum.splits)

lemma step_schedulers_frame:
  "step_schedulers i self = (res, self') \<Longrightarrow>
     same_setup self self' \<and> same_pyramid self self'
     \<and> generator self' = generator self \<and> rng self' = rng self"
  by (auto simp: step_schedulers_def Let_def same_setup_def same_pyramid_def
        split: if_splits option.splits)

lemma train_step_phases:
  "train_step env curr_iter data' ow self =
     (if iters_per_scale self * discriminator_steps self = 0 then (Inl ZeroDivisionError, self)
      else case (if curr_iter mod (iters_per_scale self * discriminator_steps self) = 0
                 then stage_transition env ow self
                 else (Inr (), self)) of
             (Inl e, self1) \<Rightarrow> (Inl e, self1)
           | (Inr u, self1) \<Rightarrow> after_transition env curr_iter data' ow self1)"
  unfolding train_step_def after_transition_def after_setup_def after_train_gan_def Let_def
  by (rule refl)

lemma after_train_gan_frame:
  "after_train_gan env curr_iter inputs lv self = (res, self') \<Longrightarrow>
     same_setup self self' \<and> curr_stage self' = curr_stage self \<and> reals self' = reals self"
  by (auto simp: after_train_gan_def Let_def same_setup_def same_pyramid_def
        split: sum.splits prod.splits if_splits
        dest!: update_noise_weight_frame step_schedulers_frame)

lemma after_setup_frame:
  "after_setup env curr_iter inputs cow self = (res, self') \<Longrightarrow>
     same_setup self self' \<and> curr_stage self' = curr_stage self \<and> reals self' = reals self"
  by (auto simp: after_setup_def same_setup_def same_pyramid_def
        split: sum.splits prod.splits
        dest!: train_gan_frame after_train_gan_frame)

lemma after_transition_frame:
  "after_transition env curr_iter data' ow self = (res, self') \<Longrightarrow>
     same_setup self self' \<and> curr_stage self' = curr_stage self"
  by (auto simp: after_transition_def same_setup_def
        split: sum.splits prod.splits if_splits
        dest!: setup_pyramid_frame after_setup_frame)

lemma train_step_stage:
  assumes "iters_per_scale self * discriminator_steps self \<noteq> 0"
      and "train_step env curr_iter data' ow self = (res, self')"
  shows "same_setup self self'
         \<and> curr_stage self' =
             curr_stage self
             + (if curr_iter mod (iters_per_scale self * discriminator_steps self) = 0
                then 1 else 0)"
  using assms
  by (auto simp: train_step_phases same_setup_def
        split: sum.splits prod.splits if_splits
        dest!: stage_transition_frame after_transition_frame)

text \<open>What a call of \<open>train_step\<close> that returns went through.\<close>

lemma after_train_gan_success:
  assumes "after_train_gan env curr_iter inputs lv s3 = (Inr logs, self')"
  shows "\<exists>s4. (if (curr_iter + 1) mod (iters_per_scale s3 * discriminator_steps s3) = 0
                    \<and> curr_stage s3 < int (length (reals s3)) - 1
                 then update_noise_weight env inputs s3 = (Inr (), s4)
                 else s4 = s3)
              \<and> step_schedulers curr_iter s4 = (Inr (), self')"
  using assms
  by (auto simp: after_train_gan_def Let_def split: sum.splits prod.splits if_splits)

lemma after_setup_success:
  assumes "after_setup env curr_iter inputs cow s2 = (Inr logs, self')"
  shows "\<exists>lv s3. train_gan env curr_iter inputs cow s2 = (Inr lv, s3)
                \<and> after_train_gan env curr_iter inputs lv s3 = (Inr logs, self')"
  using assms
  by (auto simp: after_setup_def split: sum.splits prod.splits)

lemma after_transition_success:
  assumes "after_transition env curr_iter data' ow s1 = (Inr logs, self')"
  shows "\<exists>g d s2. dict_get ow (''generator_'' @ str_int (curr_stage s1)) = Inr g
                \<and> dict_get ow (''discriminator_'' @ str_int (curr_stage s1)) = Inr d
                \<and> (if curr_iter = 0 \<or> length (reals s1) = 0
                    then setup_pyramid env (data_preprocessor env data') s1 = (Inr (), s2)
                    else s2 = s1)
                \<and> after_setup env curr_iter (data_preprocessor env data')
                     [(''generator'', g), (''discriminator'', d)] s2 = (Inr logs, self')"
  using assms
  by (auto simp: after_transition_def split: sum.splits prod.splits if_splits)

lemma train_step_success:
  assumes "train_step env curr_iter data' ow self = (Inr logs, self')"
  shows "iters_per_scale self * discriminator_steps self \<noteq> 0
         \<and> (\<exists>s1. (if curr_iter mod (iters_per_scale self * discriminator_steps self) = 0
                    then stage_transition env ow self = (Inr (), s1)
                    else s1 = self)
                 \<and> after_transition env curr_iter data' ow s1 = (Inr logs, self'))"
  using assms
  by (auto simp: train_step_phases split: sum.splits prod.splits if_splits)

text \<open>A tick that returns has trained on the real image of its stage, and has gone
  through the phases below; \<open>s3\<close> is the model after the training round.\<close>

lemma train_step_returns:
  assumes "train_step env curr_iter data' ow self = (Inr logs, self')"
  shows "\<exists>s3 s4. same_setup self s3
           \<and> noise_weights s3 = noise_weights self
           \<and> (\<exists>t. list_getitem (reals s3) (curr_stage s3) = Inr t)
           \<and> (if (curr_iter + 1) mod (iters_per_scale s3 * discriminator_steps s3) = 0
                  \<and> curr_stage s3 < int (length (reals s3)) - 1
               then update_noise_weight env (data_preprocessor env data') s3 = (Inr (), s4)
               else s4 = s3)
           \<and> step_schedulers curr_iter s4 = (Inr (), self')"
proof -
  from train_step_success[OF assms] obtain s1 where
    p1: "if curr_iter mod (iters_per_scale self * discriminator_steps self) = 0
         then stage_transition env ow self = (Inr (), s1) else s1 = self" and
    t1: "after_transition env curr_iter data' ow s1 = (Inr logs, self')"
    by blast
  have f1: "same_setup self s1 \<and> noise_weights s1 = noise_weights self"
    using p1 stage_transition_frame[of env ow self "Inr ()" s1]
    by (auto simp: same_setup_def split: if_splits)
  from after_transition_success[OF t1] obtain g d s2 where
    p2: "if curr_iter = 0 \<or> length (reals s1) = 0
         then setup_pyramid env (data_preprocessor env data') s1 = (Inr (), s2)
         else s2 = s1" and
    t2: "after_setup env curr_iter (data_preprocessor env data')
           [(''generator'', g), (''discriminator'', d)] s2 = (Inr logs, self')"
    by blast
  have f2: "same_setup s1 s2 \<and> noise_weights s2 = noise_weights s1"
    using p2 setup_pyramid_frame[of env "data_preprocessor env data'" s1 "Inr ()" s2]
    by (auto simp: same_setup_def split: if_splits)
  from after_setup_success[OF t2] obtain lv s3 where
    p3: "train_gan env curr_iter (data_preprocessor env data')
           [(''generator'', g), (''discriminator'', d)] s2 = (Inr lv, s3)" and
    t3: "after_train_gan env curr_iter (data_preprocessor env data') lv s3 = (Inr logs, self')"
    by blast
  note f3 = train_gan_frame[OF p3]
  have dw: "dict_get [(''generator'', g), (''discriminator'', d)] ''discriminator'' = Inr d"
    by (simp add: dict_get_def)
  from train_gan_success[OF p3 dw] obtain lv1 sd where
    "train_discriminator env (data_preprocessor env data') d s2 = (Inr lv1, sd)" by blast
  from train_discriminator_index[OF this]
  obtain t where ix: "list_getitem (reals s2) (curr_stage s2) = Inr t" by blast
  from after_train_gan_success[OF t3] obtain s4 where
    p4: "if (curr_iter + 1) mod (iters_per_scale s3 * discriminator_steps s3) = 0
            \<and> curr_stage s3 < int (length (reals s3)) - 1
         then update_noise_weight env (data_preprocessor env data') s3 = (Inr (), s4)
         else s4 = s3" and
    p5: "step_schedulers curr_iter s4 = (Inr (), self')"
    by blast
  have a: "same_setup self s3" using f1 f2 f3 by (auto intro: same_setup_trans)
  have b: "noise_weights s3 = noise_weights self" using f1 f2 f3 by (simp add: same_pyramid_def)
  have c: "\<exists>t. list_getitem (reals s3) (curr_stage s3) = Inr t"
    using ix f3 by (simp add: same_pyramid_def)
  from a b c p4 p5 show ?thesis by blast
qed

lemma list_getitem_bound:
  "list_getitem xs i = Inr x \<Longrightarrow> - int (length xs) \<le> i \<and> i < int (length xs)"
  by (auto simp: list_getitem_def split: if_splits)

lemma update_noise_weight_effect:
  assumes "update_noise_weight env inputs s = (Inr (), s')"
  shows "\<exists>input_sample real_next.
           dict_get inputs ''input_sample'' = Inr input_sample
           \<and> list_getitem (reals s) (curr_stage s + 1) = Inr real_next
           \<and> same_shape
                (F_interpolate env
                   (generator_forward env (generator s) input_sample (fixed_noises s)
                      (noise_weights s) ''recon'' (curr_stage s) (rng s))
                   (last2 (shape real_next))) real_next
           \<and> noise_weights s' =
                noise_weights s
                @ [noise_weight_init s
                   * sqrt ((\<Sum>k<length (data real_next).
                              (data (F_interpolate env
                                       (generator_forward env (generator s) input_sample
                                          (fixed_noises s) (noise_weights s) ''recon''
                                          (curr_stage s) (rng s))
                                       (last2 (shape real_next))) ! k
                               - data real_next ! k)\<^sup>2)
                           / real (length (data real_next)))]"
  using assms
  by (auto simp: update_noise_weight_def Let_def mse_loss_def mean_def sum_list_map2_nth
        same_shape_def split: sum.splits if_splits)

text \<open>
  Claim C3, as the code has it. The noise weights start as \<open>[1]\<close>. On every tick that
  completes, exactly one weight is appended if \<open>(i + 1) mod (iters_per_scale *
  discriminator_steps) = 0\<close> and the stage of the tick is not the last scale of the real
  pyramid, and none otherwise. The appended weight is \<open>noise_weight_init * sqrt (mean
  ((recon_upsampled - real_next)^2))\<close>, where the reconstruction is what the generator
  as trained by this tick draws in mode \<open>recon\<close> at the current stage, resampled to the
  height and width of the real image of the next stage. The weight is not negative when
  \<open>noise_weight_init\<close> is not negative.
\<close>

theorem noise_weight_calibration:
  assumes "\<not> isl (fst (train_step env curr_iter data' ow self))"
  shows "noise_weights (SinGAN_init base ns ips nwi lr pkl) = [1]
         \<and> (let self' = snd (train_step env curr_iter data' ow self)
            in if (curr_iter + 1) mod (iters_per_scale self * discriminator_steps self) = 0
                  \<and> curr_stage self' \<noteq> int (length (reals self')) - 1
               then \<exists>input_sample real_next recon_upsampled.
                      dict_get (data_preprocessor env data') ''input_sample'' = Inr input_sample
                      \<and> list_getitem (reals self') (curr_stage self' + 1) = Inr real_next
                      \<and> recon_upsampled =
                           F_interpolate env
                             (generator_forward env (generator self') input_sample
                                (fixed_noises self') (noise_weights self) ''recon''
                                (curr_stage self') (rng self'))
                             (last2 (shape real_next))
                      \<and> same_shape recon_upsampled real_next
                      \<and> noise_weights self' =
                           noise_weights self
                           @ [noise_weight_init self
                              * sqrt ((\<Sum>k<length (data real_next).
                                         (data recon_upsampled ! k - data real_next ! k)\<^sup>2)
                                      / real (length (data real_next)))]
                      \<and> (0 \<le> noise_weight_init self \<longrightarrow> 0 \<le> last (noise_weights self'))
               else noise_weights self' = noise_weights self)"
proof -
  obtain res self' where ts: "train_step env curr_iter data' ow self = (res, self')"
    by (cases "train_step env curr_iter data' ow self")
  with assms obtain logs where res: "res = Inr logs" by (cases res) auto
  from train_step_returns[OF ts[unfolded res]] obtain s3 s4 t where
    a: "same_setup self s3" and b: "noise_weights s3 = noise_weights self" and
    ix: "list_getitem (reals s3) (curr_stage s3) = Inr t" and
    p4: "if (curr_iter + 1) mod (iters_per_scale s3 * discriminator_steps s3) = 0
            \<and> curr_stage s3 < int (length (reals s3)) - 1
         then update_noise_weight env (data_preprocessor env data') s3 = (Inr (), s4)
         else s4 = s3" and
    p5: "step_schedulers curr_iter s4 = (Inr (), self')"
    by blast
  note f5 = step_schedulers_frame[OF p5]
  have cfg: "iters_per_scale s3 = iters_per_scale self"
    "discriminator_steps s3 = discriminator_steps self"
    "noise_weight_init s3 = noise_weight_init self"
    using a by (simp_all add: same_setup_def)
  have le: "curr_stage s3 < int (length (reals s3))" using list_getitem_bound[OF ix] by simp
  have goal:
    "if (curr_iter + 1) mod (iters_per_scale self * discriminator_steps self) = 0
        \<and> curr_stage self' \<noteq> int (length (reals self')) - 1
     then \<exists>input_sample real_next recon_upsampled.
            dict_get (data_preprocessor env data') ''input_sample'' = Inr input_sample
            \<and> list_getitem (reals self') (curr_stage self' + 1) = Inr real_next
            \<and> recon_upsampled =
                 F_interpolate env
                   (generator_forward env (generator self') input_sample
                      (fixed_noises self') (noise_weights self) ''recon''
                      (curr_stage self') (rng self'))
                   (last2 (shape real_next))
            \<and> same_shape recon_upsampled real_next
            \<and> noise_weights self' =
                 noise_weights self
                 @ [noise_weight_init self
                    * sqrt ((\<Sum>k<length (data real_next).
                               (data recon_upsampled ! k - data real_next ! k)\<^sup>2)
                            / real (length (data real_next)))]
            \<and> (0 \<le> noise_weight_init self \<longrightarrow> 0 \<le> last (noise_weights self'))
     else noise_weights self' = noise_weights self"
  proof (cases "(curr_iter + 1) mod (iters_per_scale s3 * discriminator_steps s3) = 0
                  \<and> curr_stage s3 < int (length (reals s3)) - 1")
    case False
    with p4 have s4: "s4 = s3" by simp
    have "curr_stage self' = curr_stage s3" "reals self' = reals s3"
      "noise_weights self' = noise_weights self"
      using f5 s4 b by (simp_all add: same_pyramid_def)
    with False le cfg show ?thesis by auto
  next
    case True
    with p4 have un: "update_noise_weight env (data_preprocessor env data') s3 = (Inr (), s4)"
      by simp
    note f4 = update_noise_weight_frame[OF un]
    have eqs: "curr_stage self' = curr_stage s3" "reals self' = reals s3"
      "fixed_noises self' = fixed_noises s3" "generator self' = generator s3"
      "rng self' = rng s3" "noise_weights self' = noise_weights s4"
      using f4 f5 by (simp_all add: same_pyramid_def)
    from update_noise_weight_effect[OF un] obtain input_sample real_next where
      e: "dict_get (data_preprocessor env data') ''input_sample'' = Inr input_sample"
         "list_getitem (reals s3) (curr_stage s3 + 1) = Inr real_next"
         "same_shape
            (F_interpolate env
               (generator_forward env (generator s3) input_sample (fixed_noises s3)
                  (noise_weights s3) ''recon'' (curr_stage s3) (rng s3))
               (last2 (shape real_next))) real_next"
         "noise_weights s4 =
            noise_weights s3
            @ [noise_weight_init s3
               * sqrt ((\<Sum>k<length (data real_next).
                          (data (F_interpolate env
                                   (generator_forward env (generator s3) input_sample
                                      (fixed_noises s3) (noise_weights s3) ''recon''
                                      (curr_stage s3) (rng s3))
                                   (last2 (shape real_next))) ! k
                           - data real_next ! k)\<^sup>2)
                       / real (length (data real_next)))]"
      by blast
    have nn: "0 \<le> noise_weight_init self \<longrightarrow> 0 \<le> last (noise_weights s4)"
      unfolding e(4) cfg by (simp add: sum_nonneg)
    from True cfg eqs have c: "(curr_iter + 1) mod (iters_per_scale self * discriminator_steps self) = 0
        \<and> curr_stage self' \<noteq> int (length (reals self')) - 1" by auto
    show ?thesis
      using c e nn unfolding eqs b cfg by auto
  qed
  have i: "noise_weights (SinGAN_init base ns ips nwi lr pkl) = [1]"
    by (simp add: SinGAN_init_def singan.defs basegan.defs)
  show ?thesis unfolding ts snd_conv Let_def using i goal by blast
qed

lemmas step_defs =
  train_step_def stage_transition_def setup_pyramid_def construct_fixed_noises_def shape_hw_def
  zeros_like_def update_noise_weight_def step_schedulers_def truthy_def last2_def str_int_def
  str_nat.simps digit_char_def warning_msg_def fresh_def

lemma fresh_tick0:
  "\<not> isl (fst (train_step env0 0 batch2 optims0 (fresh w)))
   \<and> noise_weights (snd (train_step env0 0 batch2 optims0 (fresh w))) = [1, w]
   \<and> curr_stage (snd (train_step env0 0 batch2 optims0 (fresh w))) = 0
   \<and> length (reals (snd (train_step env0 0 batch2 optims0 (fresh w)))) = 2"
  by (simp add: step_defs run_defs example_defs numeral_2_eq_2)

theorem noise_weight_calibration_witness:
  "\<not> isl (fst (train_step env0 0 batch2 optims0 (fresh (1 / 10))))
   \<and> (0 + 1) mod (iters_per_scale (fresh (1 / 10)) * discriminator_steps (fresh (1 / 10))) = 0
   \<and> noise_weights (fresh (1 / 10)) = [1]
   \<and> noise_weights (snd (train_step env0 0 batch2 optims0 (fresh (1 / 10)))) = [1, 1 / 10]
   \<and> 0 \<le> last (noise_weights (snd (train_step env0 0 batch2 optims0 (fresh (1 / 10)))))"
proof -
  have h: "\<not> isl (fst (train_step env0 0 batch2 optims0 (fresh (1 / 10))))"
    using fresh_tick0[of "1 / 10"] by simp
  have c: "(0 + 1) mod (iters_per_scale (fresh (1 / 10)) * discriminator_steps (fresh (1 / 10))) = 0"
    "noise_weights (fresh (1 / 10)) = [1]" "0 \<le> noise_weight_init (fresh (1 / 10))"
    by (simp_all add: fresh_def example_defs)
  have n: "curr_stage (snd (train_step env0 0 batch2 optims0 (fresh (1 / 10))))
             \<noteq> int (length (reals (snd (train_step env0 0 batch2 optims0 (fresh (1 / 10)))))) - 1"
    using fresh_tick0[of "1 / 10"] by simp
  from noise_weight_calibration [OF h, of base0 None 1 "1 / 10" None None] c n
  have "0 \<le> last (noise_weights (snd (train_step env0 0 batch2 optims0 (fresh (1 / 10)))))"
    by (auto simp: Let_def)
  with h c fresh_tick0[of "1 / 10"] show ?thesis by simp
qed

text \<open>With a negative \<open>noise_weight_init\<close> the appended weight is negative: the first
  tick of a two-image pyramid with \<open>noise_weight_init = - 1\<close> appends \<open>- 1\<close>.\<close>

theorem noise_weight_negative_counterexample:
  "\<not> isl (fst (train_step env0 0 batch2 optims0 (fresh (- 1))))
   \<and> noise_weights (snd (train_step env0 0 batch2 optims0 (fresh (- 1)))) = [1, - 1]
   \<and> \<not> 0 \<le> last (noise_weights (snd (train_step env0 0 batch2 optims0 (fresh (- 1)))))"
  using fresh_tick0[of "- 1"] by simp

subsection \<open>The stage\<close>

lemma div_step:
  assumes "0 < (w::int)"
  shows "(n + 1) div w = n div w + (if (n + 1) mod w = 0 then 1 else 0)"
proof -
  let ?q = "n div w" and ?r = "n mod w"
  have n: "n = w * ?q + ?r" by simp
  have r: "0 \<le> ?r" "?r < w" using assms by simp_all
  show ?thesis
  proof (cases "?r + 1 < w")
    case True
    have e: "n + 1 = w * ?q + (?r + 1)" using n by simp
    have "(n + 1) div w = ?q" by (rule int_div_pos_eq[OF e]) (use r True in auto)
    moreover have "(n + 1) mod w = ?r + 1" by (rule int_mod_pos_eq[OF e]) (use r True in auto)
    ultimately show ?thesis using r by simp
  next
    case False
    with r have w: "?r + 1 = w" by simp
    have "n + 1 = w * ?q + (?r + 1)" using n by simp
    also have "\<dots> = w * ?q + w" using w by simp
    finally have e: "n + 1 = w * (?q + 1) + 0" by (simp add: algebra_simps)
    have "(n + 1) div w = ?q + 1" by (rule int_div_pos_eq[OF e]) (use assms in auto)
    moreover have "(n + 1) mod w = 0" by (rule int_mod_pos_eq[OF e]) (use assms in auto)
    ultimately show ?thesis by simp
  qed
qed

text \<open>A tick that returns leaves the stage inside the real pyramid.\<close>

lemma train_step_in_pyramid:
  assumes "train_step env curr_iter data' ow self = (Inr logs, self')"
  shows "- int (length (reals self')) \<le> curr_stage self'
         \<and> curr_stage self' < int (length (reals self'))"
proof -
  from train_step_returns[OF assms] obtain s3 s4 t where
    ix: "list_getitem (reals s3) (curr_stage s3) = Inr t" and
    p4: "if (curr_iter + 1) mod (iters_per_scale s3 * discriminator_steps s3) = 0
            \<and> curr_stage s3 < int (length (reals s3)) - 1
         then update_noise_weight env (data_preprocessor env data') s3 = (Inr (), s4)
         else s4 = s3" and
    p5: "step_schedulers curr_iter s4 = (Inr (), self')"
    by blast
  have "curr_stage s4 = curr_stage s3 \<and> reals s4 = reals s3"
    using p4 update_noise_weight_frame[of env "data_preprocessor env data'" s3 "Inr ()" s4]
    by (auto split: if_splits)
  moreover have "curr_stage self' = curr_stage s4 \<and> reals self' = reals s4"
    using step_schedulers_frame[OF p5] by (simp add: same_pyramid_def)
  ultimately show ?thesis using list_getitem_bound[OF ix] by simp
qed

lemma run_ticks_stage:
  assumes "0 < iters_per_scale self * discriminator_steps self"
      and "run_ticks env batch ow (Suc i) self = (Inr (), s)"
  shows "same_setup self s
         \<and> curr_stage s
             = curr_stage self + 1 + int i div (iters_per_scale self * discriminator_steps self)
         \<and> curr_stage s < int (length (reals s))"
  using assms
proof (induction i arbitrary: s)
  case 0
  then obtain logs where ts: "train_step env 0 (batch 0) ow self = (Inr logs, s)"
    by (auto split: sum.splits prod.splits)
  have nz: "iters_per_scale self * discriminator_steps self \<noteq> 0" using 0(1) by linarith
  from train_step_stage[OF nz ts] train_step_in_pyramid[OF ts] show ?case by simp
next
  case (Suc i)
  from Suc.prems(2) obtain s1 logs where
    r1: "run_ticks env batch ow (Suc i) self = (Inr (), s1)" and
    ts: "train_step env (int (Suc i)) (batch (Suc i)) ow s1 = (Inr logs, s)"
    by (auto split: sum.splits prod.splits)
  note ih = Suc.IH[OF Suc.prems(1) r1]
  have w: "iters_per_scale s1 * discriminator_steps s1
             = iters_per_scale self * discriminator_steps self"
    using ih by (simp add: same_setup_def)
  have nz: "iters_per_scale s1 * discriminator_steps s1 \<noteq> 0" using w Suc.prems(1) by linarith
  note st = train_step_stage[OF nz ts]
  have "curr_stage s
          = curr_stage self + 1 + (int i + 1) div (iters_per_scale self * discriminator_steps self)"
    using st ih w div_step[OF Suc.prems(1), of "int i"] by (simp add: add.commute)
  then show ?case
    using st ih train_step_in_pyramid[OF ts]
    by (auto simp: add.commute intro: same_setup_trans)
qed

text \<open>
  Claim C1, as the code has it. On every tick whose window \<open>iters_per_scale *
  discriminator_steps\<close> is not zero, whether the tick completes or raises, the stage
  transition fires if and only if \<open>i mod window = 0\<close>: the stage is then one more than
  before, and otherwise it is the same; so it advances by at most one and never
  decreases. When the iterations \<open>0 \<dots> i\<close> of a run from the untrained stage \<open>- 1\<close> have
  all completed, with a positive window, the stage is \<open>floor (i / window)\<close>, and it is at
  most the length of the real pyramid minus one. The code does not clip the stage: the
  tick that takes it beyond the pyramid does not complete.
\<close>

theorem stage_progress:
  "(iters_per_scale self * discriminator_steps self \<noteq> 0 \<longrightarrow>
      curr_stage (snd (train_step env curr_iter data' ow self))
        = curr_stage self
          + (if curr_iter mod (iters_per_scale self * discriminator_steps self) = 0
             then 1 else 0))
   \<and> (0 < iters_per_scale self * discriminator_steps self \<and> curr_stage self = - 1
       \<and> \<not> isl (fst (run_ticks env batch ow (Suc i) self)) \<longrightarrow>
      curr_stage (snd (run_ticks env batch ow (Suc i) self))
        = int i div (iters_per_scale self * discriminator_steps self)
      \<and> 0 \<le> curr_stage (snd (run_ticks env batch ow (Suc i) self))
      \<and> curr_stage (snd (run_ticks env batch ow (Suc i) self))
          \<le> int (length (reals (snd (run_ticks env batch ow (Suc i) self)))) - 1)"
proof (intro conjI impI)
  assume nz: "iters_per_scale self * discriminator_steps self \<noteq> 0"
  obtain res self' where ts: "train_step env curr_iter data' ow self = (res, self')"
    by (cases "train_step env curr_iter data' ow self")
  from train_step_stage[OF nz ts] ts
  show "curr_stage (snd (train_step env curr_iter data' ow self))
          = curr_stage self
            + (if curr_iter mod (iters_per_scale self * discriminator_steps self) = 0
               then 1 else 0)"
    by simp
next
  assume a: "0 < iters_per_scale self * discriminator_steps self \<and> curr_stage self = - 1
             \<and> \<not> isl (fst (run_ticks env batch ow (Suc i) self))"
  obtain res s where rt: "run_ticks env batch ow (Suc i) self = (res, s)"
    by (cases "run_ticks env batch ow (Suc i) self")
  with a have res: "res = Inr ()" by (cases res) auto
  from a have w: "0 < iters_per_scale self * discriminator_steps self" by simp
  note r = run_ticks_stage[OF w rt[unfolded res]]
  have d: "0 \<le> int i div (iters_per_scale self * discriminator_steps self)"
    using w by (simp add: pos_imp_zdiv_nonneg_iff)
  show "curr_stage (snd (run_ticks env batch ow (Suc i) self))
          = int i div (iters_per_scale self * discriminator_steps self)"
    unfolding rt snd_conv using r a by simp
  show "0 \<le> curr_stage (snd (run_ticks env batch ow (Suc i) self))"
    unfolding rt snd_conv using r a d by simp
  show "curr_stage (snd (run_ticks env batch ow (Suc i) self))
          \<le> int (length (reals (snd (run_ticks env batch ow (Suc i) self)))) - 1"
    unfolding rt snd_conv using r by simp
qed

lemma two_ticks_two_images:
  "\<not> isl (fst (run_ticks env0 batches2 optims0 (Suc (Suc 0)) (SinGAN_init base0 ns 1 w None None)))
   \<and> curr_stage (snd (run_ticks env0 batches2 optims0 (Suc (Suc 0))
                        (SinGAN_init base0 ns 1 w None None))) = 1
   \<and> num_scales (snd (run_ticks env0 batches2 optims0 (Suc (Suc 0))
                        (SinGAN_init base0 ns 1 w None None))) = ns"
  by (simp add: batches2_def step_defs run_defs example_defs numeral_2_eq_2)

lemma two_ticks_one_image:
  "fst (run_ticks env0 batches1 optims0 (Suc (Suc 0)) (fresh w)) = Inl IndexError
   \<and> curr_stage (snd (run_ticks env0 batches1 optims0 (Suc (Suc 0)) (fresh w))) = 1
   \<and> length (reals (snd (run_ticks env0 batches1 optims0 (Suc (Suc 0)) (fresh w)))) = 1"
  by (simp add: batches1_def step_defs run_defs example_defs numeral_2_eq_2)

theorem stage_progress_witness:
  "iters_per_scale (fresh (1 / 10)) * discriminator_steps (fresh (1 / 10)) \<noteq> 0
   \<and> 0 < iters_per_scale (fresh (1 / 10)) * discriminator_steps (fresh (1 / 10))
   \<and> curr_stage (fresh (1 / 10)) = - 1
   \<and> curr_stage (snd (train_step env0 0 batch2 optims0 (fresh (1 / 10)))) = 0
   \<and> \<not> isl (fst (run_ticks env0 batches2 optims0 (Suc 1) (fresh (1 / 10))))
   \<and> curr_stage (snd (run_ticks env0 batches2 optims0 (Suc 1) (fresh (1 / 10)))) = 1
   \<and> curr_stage (snd (run_ticks env0 batches2 optims0 (Suc 1) (fresh (1 / 10))))
       \<le> int (length (reals (snd (run_ticks env0 batches2 optims0 (Suc 1) (fresh (1 / 10)))))) - 1"
proof -
  have c: "iters_per_scale (fresh (1 / 10)) * discriminator_steps (fresh (1 / 10)) = 1"
    "curr_stage (fresh (1 / 10)) = - 1"
    by (simp_all add: fresh_def example_defs)
  have r: "\<not> isl (fst (run_ticks env0 batches2 optims0 (Suc 1) (fresh (1 / 10))))"
    using two_ticks_two_images[of None "1 / 10"] by (simp add: fresh_def)
  from stage_progress [of "fresh (1 / 10)" env0 0 batch2 optims0 batches2 1] c r
  show ?thesis by simp
qed

text \<open>The stage is not clipped. With a pyramid of one image and a window of one
  iteration, iteration \<open>1\<close> increments the stage to \<open>1\<close> and then raises \<open>IndexError\<close>
  where the real image of stage \<open>1\<close> is read; the stage it leaves is \<open>1\<close>, where the
  clipped value is \<open>0\<close>.\<close>

theorem stage_not_clipped_counterexample:
  "fst (run_ticks env0 batches1 optims0 2 (fresh (1 / 10))) = Inl IndexError
   \<and> length (reals (snd (run_ticks env0 batches1 optims0 2 (fresh (1 / 10))))) = 1
   \<and> curr_stage (snd (run_ticks env0 batches1 optims0 2 (fresh (1 / 10)))) = 1
   \<and> clipped_stage 1
        (iters_per_scale (fresh (1 / 10)) * discriminator_steps (fresh (1 / 10))) 1 = 0"
proof -
  have "clipped_stage 1
          (iters_per_scale (fresh (1 / 10)) * discriminator_steps (fresh (1 / 10))) 1 = 0"
    by (simp add: clipped_stage_def fresh_def example_defs)
  with two_ticks_one_image[of "1 / 10"] show ?thesis by (simp add: numeral_2_eq_2)
qed


section \<open>\<open>num_scales\<close> is never read\<close>

text \<open>Every operation of the training step gives the same outcome on two models that
  differ in \<open>num_scales\<close> only, and leaves models that differ in \<open>num_scales\<close> only.
  The proofs follow the body of each operation: the tests and look-ups are the same on
  both models, and so are the calls, by the result for the operation called.\<close>

lemma agree_out_case:
  assumes "agree_out x y"
      and "\<And>e s s'. agree s s' \<Longrightarrow> agree_out (f1 e s) (g1 e s')"
      and "\<And>v s s'. agree s s' \<Longrightarrow> agree_out (f2 v s) (g2 v s')"
  shows "agree_out (case x of (Inl e, s) \<Rightarrow> f1 e s | (Inr v, s) \<Rightarrow> f2 v s)
                   (case y of (Inl e, s) \<Rightarrow> g1 e s | (Inr v, s) \<Rightarrow> g2 v s)"
  using assms by (cases x; cases y) (auto simp: agree_out_def split: sum.splits)

lemma agree_out_sum:
  assumes "\<And>e. agree_out (X e) (X' e)" and "\<And>v. agree_out (Y v) (Y' v)"
  shows "agree_out (case r of Inl e \<Rightarrow> X e | Inr v \<Rightarrow> Y v)
                   (case r of Inl e \<Rightarrow> X' e | Inr v \<Rightarrow> Y' v)"
  using assms by (cases r) auto

lemma agree_out_option:
  assumes "agree_out X X'" and "\<And>v. agree_out (Y v) (Y' v)"
  shows "agree_out (case r of None \<Rightarrow> X | Some v \<Rightarrow> Y v)
                   (case r of None \<Rightarrow> X' | Some v \<Rightarrow> Y' v)"
  using assms by (cases r) auto

lemma agree_out_prod:
  assumes "\<And>p q. agree_out (F p q) (G p q)"
  shows "agree_out (case v of (p, q) \<Rightarrow> F p q) (case v of (p, q) \<Rightarrow> G p q)"
  using assms by (cases v) auto

lemma agree_out_list:
  assumes "agree_out X X'" and "\<And>h t. agree_out (Y h t) (Y' h t)"
  shows "agree_out (case l of [] \<Rightarrow> X | h # t \<Rightarrow> Y h t)
                   (case l of [] \<Rightarrow> X' | h # t \<Rightarrow> Y' h t)"
  using assms by (cases l) auto

lemma agree_out_if:
  assumes "c \<Longrightarrow> agree_out x y" and "\<not> c \<Longrightarrow> agree_out x' y'"
  shows "agree_out (if c then x else x') (if c then y else y')"
  using assms by simp

lemma agree_out_raise: "agree s s' \<Longrightarrow> agree_out (Inl e, s) (Inl e, s')"
  by (simp add: agree_out_def)

lemma agree_out_return: "agree s s' \<Longrightarrow> agree_out (Inr v, s) (Inr v, s')"
  by (simp add: agree_out_def)

lemmas agree_cases =
  agree_out_case agree_out_sum agree_out_option agree_out_prod agree_out_list agree_out_if
  agree_out_raise agree_out_return

lemma gen_loss_agree: "agree a b \<Longrightarrow> gen_loss a d r = gen_loss b d r"
  by (simp add: gen_loss_def agree_def)

lemma disc_loss_agree:
  "agree a b \<Longrightarrow> agree_out (disc_loss env a f r fk rl) (disc_loss env b f r fk rl)"
  unfolding disc_loss_def Let_def
  apply ((simp add: agree_def split del: if_split)?;
         (intro agree_cases)?;
         (simp add: agree_def split del: if_split)?;
         (intro agree_cases)?;
         (simp add: agree_def split del: if_split)?;
         (intro agree_cases)?;
         (simp add: agree_def split del: if_split)?;
         (intro agree_cases)?;
         (simp add: agree_def agree_out_def)?)
  done

lemma train_discriminator_agree:
  "agree a b \<Longrightarrow>
     agree_out (train_discriminator env inputs ow a) (train_discriminator env inputs ow b)"
  unfolding train_discriminator_def Let_def
  apply ((simp add: agree_def stepped_def graph_of_def split del: if_split)?;
         (intro agree_cases disc_loss_agree)?;
         (simp add: agree_def stepped_def graph_of_def split del: if_split)?;
         (intro agree_cases disc_loss_agree)?;
         (simp add: agree_def stepped_def graph_of_def split del: if_split)?;
         (intro agree_cases disc_loss_agree)?;
         (simp add: agree_def stepped_def graph_of_def split del: if_split)?;
         (intro agree_cases disc_loss_agree)?;
         (simp add: agree_def stepped_def graph_of_def split del: if_split)?;
         (intro agree_cases disc_loss_agree)?;
         (simp add: agree_def agree_out_def stepped_def graph_of_def)?)
  done

lemma graph_of_agree: "agree a b \<Longrightarrow> graph_of a inputs = graph_of b inputs"
  by (simp add: graph_of_def agree_def)

lemma train_generator_agree:
  assumes "agree a b"
  shows "agree_out (train_generator env inputs ow a) (train_generator env inputs ow b)"
proof -
  have eq: "generator a = generator b" "fixed_noises a = fixed_noises b"
    "noise_weights a = noise_weights b" "curr_stage a = curr_stage b" "rng a = rng b"
    "reals a = reals b" "discriminator a = discriminator b"
    using assms by (simp_all add: agree_def)
  have ag1: "agree (a\<lparr>rng := Suc (rng a)\<rparr>) (b\<lparr>rng := Suc (rng b)\<rparr>)"
    using assms by (simp add: agree_def)
  show ?thesis
    using ag1 gen_loss_agree[OF ag1] graph_of_agree[OF ag1]
    by (auto simp: train_generator_def Let_def eq agree_out_def agree_def stepped_def
          split: sum.splits)
qed

lemma generator_rounds_agree:
  "agree a b \<Longrightarrow>
     agree_out (generator_rounds env inputs ow n acc a) (generator_rounds env inputs ow n acc b)"
proof (induction n arbitrary: acc a b)
  case 0
  then show ?case by (simp add: agree_out_def)
next
  case (Suc n)
  show ?case
    unfolding generator_rounds.simps
    apply (rule agree_out_case)
      apply (rule train_generator_agree[OF Suc.prems])
     apply (erule agree_out_raise)
    apply (erule Suc.IH)
    done
qed

lemma ema_agree:
  "agree a b \<Longrightarrow>
     agree_out (ema_after_generator_update i dacc a) (ema_after_generator_update i dacc b)"
  unfolding ema_after_generator_update_def Let_def
  apply ((simp add: agree_def split del: if_split)?;
         (intro agree_cases)?;
         (simp add: agree_def split del: if_split)?;
         (intro agree_cases)?;
         (simp add: agree_def split del: if_split)?;
         (intro agree_cases)?;
         (simp add: agree_def split del: if_split)?;
         (intro agree_cases)?;
         (simp add: agree_def agree_out_def)?)
  done

lemma train_gan_agree:
  "agree a b \<Longrightarrow> agree_out (train_gan env i inputs ow a) (train_gan env i inputs ow b)"
  unfolding train_gan_def Let_def
  apply ((simp add: agree_def set_requires_grad_def split del: if_split)?;
         (intro agree_cases train_discriminator_agree generator_rounds_agree ema_agree)?;
         (simp add: agree_def set_requires_grad_def split del: if_split)?;
         (intro agree_cases train_discriminator_agree generator_rounds_agree ema_agree)?;
         (simp add: agree_def set_requires_grad_def split del: if_split)?;
         (intro agree_cases train_discriminator_agree generator_rounds_agree ema_agree)?;
         (simp add: agree_def set_requires_grad_def split del: if_split)?;
         (intro agree_cases train_discriminator_agree generator_rounds_agree ema_agree)?;
         (simp add: agree_def set_requires_grad_def split del: if_split)?;
         (intro agree_cases train_discriminator_agree generator_rounds_agree ema_agree)?;
         (simp add: agree_def set_requires_grad_def split del: if_split)?;
         (intro agree_cases train_discriminator_agree generator_rounds_agree ema_agree)?;
         (simp add: agree_def set_requires_grad_def split del: if_split)?;
         (intro agree_cases train_discriminator_agree generator_rounds_agree ema_agree)?;
         (simp add: agree_def set_requires_grad_def split del: if_split)?;
         (intro agree_cases train_discriminator_agree generator_rounds_agree ema_agree)?;
         (simp add: agree_def agree_out_def set_requires_grad_def)?)
  done

lemma stage_transition_agree:
  "agree a b \<Longrightarrow> agree_out (stage_transition env ow a) (stage_transition env ow b)"
  unfolding stage_transition_def Let_def
  apply ((simp add: agree_def split del: if_split)?;
         (intro agree_cases)?;
         (simp add: agree_def split del: if_split)?;
         (intro agree_cases)?;
         (simp add: agree_def split del: if_split)?;
         (intro agree_cases)?;
         (simp add: agree_def split del: if_split)?;
         (intro agree_cases)?;
         (simp add: agree_def split del: if_split)?;
         (intro agree_cases)?;
         (simp add: agree_def split del: if_split)?;
         (intro agree_cases)?;
         (simp add: agree_def agree_out_def)?)
  done

lemma update_noise_weight_agree:
  "agree a b \<Longrightarrow>
     agree_out (update_noise_weight env inputs a) (update_noise_weight env inputs b)"
  unfolding update_noise_weight_def Let_def
  apply ((simp add: agree_def split del: if_split)?;
         (intro agree_cases)?;
         (simp add: agree_def split del: if_split)?;
         (intro agree_cases)?;
         (simp add: agree_def split del: if_split)?;
         (intro agree_cases)?;
         (simp add: agree_def split del: if_split)?;
         (intro agree_cases)?;
         (simp add: agree_def split del: if_split)?;
         (intro agree_cases)?;
         (simp add: agree_def agree_out_def)?)
  done

lemma step_schedulers_agree:
  "agree a b \<Longrightarrow> agree_out (step_schedulers i a) (step_schedulers i b)"
  unfolding step_schedulers_def Let_def
  apply ((simp add: agree_def split del: if_split)?;
         (intro agree_cases)?;
         (simp add: agree_def split del: if_split)?;
         (intro agree_cases)?;
         (simp add: agree_def split del: if_split)?;
         (intro agree_cases)?;
         (simp add: agree_def split del: if_split)?;
         (intro agree_cases)?;
         (simp add: agree_def split del: if_split)?;
         (intro agree_cases)?;
         (simp add: agree_def agree_out_def)?)
  done

lemma construct_loop_agree:
  "agree a b \<Longrightarrow> agree_out (construct_loop env i rs a) (construct_loop env i rs b)"
proof (induction rs arbitrary: i a b)
  case Nil
  then show ?case by (simp add: agree_out_def)
next
  case (Cons r rs)
  have eq: "rng a = rng b" "fixed_noises a = fixed_noises b"
    using Cons.prems by (simp_all add: agree_def)
  have a1: "agree (a\<lparr>fixed_noises := fixed_noises a @ [x], rng := Suc (rng a)\<rparr>)
                  (b\<lparr>fixed_noises := fixed_noises b @ [x], rng := Suc (rng b)\<rparr>)" for x
    using Cons.prems by (simp add: agree_def)
  have a2: "agree (a\<lparr>fixed_noises := fixed_noises a @ [x]\<rparr>)
                  (b\<lparr>fixed_noises := fixed_noises b @ [x]\<rparr>)" for x
    using Cons.prems by (simp add: agree_def)
  show ?case
  proof (cases "shape_hw r")
    case (Inl e)
    with Cons.prems show ?thesis by (simp add: agree_out_def)
  next
    case (Inr hw)
    obtain h w where hw: "hw = (h, w)" by (cases hw)
    show ?thesis
    proof (cases "i = 0")
      case True
      from Cons.IH[OF a1, of "Suc i"] Inr hw True show ?thesis by (simp add: Let_def eq)
    next
      case False
      from Cons.IH[OF a2, of "Suc i"] Inr hw False show ?thesis by (simp add: Let_def eq)
    qed
  qed
qed

lemma setup_pyramid_agree:
  assumes "agree a b"
  shows "agree_out (setup_pyramid env inputs a) (setup_pyramid env inputs b)"
proof -
  have "agree (a\<lparr>reals := rs, trace := trace a @ [ConstructFixedNoises]\<rparr>)
              (b\<lparr>reals := rs, trace := trace b @ [ConstructFixedNoises]\<rparr>)" for rs
    using assms by (simp add: agree_def)
  from construct_loop_agree[OF this] assms show ?thesis
    by (auto simp: setup_pyramid_def construct_fixed_noises_def Let_def agree_out_def
          split: sum.splits)
qed

lemma after_train_gan_agree:
  "agree a b \<Longrightarrow>
     agree_out (after_train_gan env i inputs lv a) (after_train_gan env i inputs lv b)"
  unfolding after_train_gan_def Let_def
  apply ((simp add: agree_def split del: if_split)?;
         (intro agree_cases update_noise_weight_agree step_schedulers_agree)?;
         (simp add: agree_def split del: if_split)?;
         (intro agree_cases update_noise_weight_agree step_schedulers_agree)?;
         (simp add: agree_def split del: if_split)?;
         (intro agree_cases update_noise_weight_agree step_schedulers_agree)?;
         (simp add: agree_def split del: if_split)?;
         (intro agree_cases update_noise_weight_agree step_schedulers_agree)?;
         (simp add: agree_def split del: if_split)?;
         (intro agree_cases update_noise_weight_agree step_schedulers_agree)?;
         (simp add: agree_def agree_out_def)?)
  done

lemma after_setup_agree:
  "agree a b \<Longrightarrow>
     agree_out (after_setup env i inputs cow a) (after_setup env i inputs cow b)"
  unfolding after_setup_def
  apply (rule agree_out_case)
    apply (erule train_gan_agree)
   apply (erule agree_out_raise)
  apply (erule after_train_gan_agree)
  done

lemma after_transition_agree:
  "agree a b \<Longrightarrow>
     agree_out (after_transition env i data' ow a) (after_transition env i data' ow b)"
  unfolding after_transition_def
  apply ((simp add: agree_def split del: if_split)?;
         (intro agree_cases setup_pyramid_agree after_setup_agree)?;
         (simp add: agree_def split del: if_split)?;
         (intro agree_cases setup_pyramid_agree after_setup_agree)?;
         (simp add: agree_def split del: if_split)?;
         (intro agree_cases setup_pyramid_agree after_setup_agree)?;
         (simp add: agree_def split del: if_split)?;
         (intro agree_cases setup_pyramid_agree after_setup_agree)?;
         (simp add: agree_def split del: if_split)?;
         (intro agree_cases setup_pyramid_agree after_setup_agree)?;
         (simp add: agree_def agree_out_def)?)
  done

lemma train_step_agree:
  "agree a b \<Longrightarrow> agree_out (train_step env i data' ow a) (train_step env i data' ow b)"
  unfolding train_step_phases
  apply ((simp add: agree_def split del: if_split)?;
         (intro agree_cases stage_transition_agree after_transition_agree)?;
         (simp add: agree_def split del: if_split)?;
         (intro agree_cases stage_transition_agree after_transition_agree)?;
         (simp add: agree_def split del: if_split)?;
         (intro agree_cases stage_transition_agree after_transition_agree)?;
         (simp add: agree_def split del: if_split)?;
         (intro agree_cases stage_transition_agree after_transition_agree)?;
         (simp add: agree_def agree_out_def)?)
  done

lemma agree_num_scales: "agree (self\<lparr>num_scales := n\<rparr>) self"
  by (simp add: agree_def)


subsection \<open>A stage beyond the pyramid\<close>

lemma stage_transition_errors:
  "stage_transition env ow self = (Inl e, s') \<Longrightarrow>
     (\<exists>k. e = KeyError k) \<or> (\<exists>m. e = AssertionError m)"
  by (auto simp: stage_transition_def Let_def dict_get_def
        split: sum.splits if_splits option.splits)

lemma train_discriminator_beyond:
  assumes "int (length (reals s)) \<le> curr_stage s"
  shows "\<exists>e s'. train_discriminator env inputs ow s = (Inl e, s')
                \<and> (e = IndexError \<or> (\<exists>k. e = KeyError k))"
  using assms
  by (auto simp: train_discriminator_def Let_def list_getitem_def dict_get_def
        split: sum.splits option.splits)

lemma train_gan_beyond:
  assumes "int (length (reals s)) \<le> curr_stage s"
  shows "\<exists>e s'. train_gan env i inputs ow s = (Inl e, s')
                \<and> (e = IndexError \<or> (\<exists>k. e = KeyError k))"
proof (cases "dict_get ow ''discriminator''")
  case (Inl e)
  then show ?thesis
    by (auto simp: train_gan_def dict_get_def split: option.splits)
next
  case (Inr dw)
  from train_discriminator_beyond[OF assms, of env inputs dw] obtain e s' where
    "train_discriminator env inputs dw s = (Inl e, s')" "e = IndexError \<or> (\<exists>k. e = KeyError k)"
    by blast
  with Inr show ?thesis by (simp add: train_gan_def)
qed

lemma after_transition_beyond:
  assumes "curr_iter \<noteq> 0" and "reals s \<noteq> []" and "int (length (reals s)) \<le> curr_stage s"
  shows "\<exists>e s'. after_transition env curr_iter data' ow s = (Inl e, s')
                \<and> (e = IndexError \<or> (\<exists>k. e = KeyError k))"
proof (cases "dict_get ow (''generator_'' @ str_int (curr_stage s))")
  case (Inl e)
  then show ?thesis by (auto simp: after_transition_def dict_get_def split: option.splits)
next
  case g: (Inr g)
  show ?thesis
  proof (cases "dict_get ow (''discriminator_'' @ str_int (curr_stage s))")
    case (Inl e)
    with g show ?thesis by (auto simp: after_transition_def dict_get_def split: option.splits)
  next
    case d: (Inr d)
    from train_gan_beyond[OF assms(3), of env curr_iter "data_preprocessor env data'"
        "[(''generator'', g), (''discriminator'', d)]"]
    obtain e s' where
      "train_gan env curr_iter (data_preprocessor env data')
         [(''generator'', g), (''discriminator'', d)] s = (Inl e, s')"
      "e = IndexError \<or> (\<exists>k. e = KeyError k)"
      by blast
    with g d assms(1,2) show ?thesis by (simp add: after_transition_def after_setup_def)
  qed
qed

text \<open>
  Claim C8, as the code has it. \<open>train_step\<close> does not compare the stage with
  \<open>num_scales\<close>: its result or exception, and the stage it leaves, are the same for
  every value of \<open>num_scales\<close>. When a stage transition takes the stage to the length of
  the real pyramid or beyond (on a tick that does not rebuild the pyramid), the tick
  raises an exception: a \<open>KeyError\<close> or \<open>AssertionError\<close> where the optimisers of the new
  stage are looked up and checked, a \<open>KeyError\<close> for a batch without \<open>input_sample\<close>, or
  the \<open>IndexError\<close> of reading the real image of the new stage. The stage stays
  incremented, it is not clamped, and \<open>num_scales\<close> is left as it was.
\<close>

theorem stage_beyond_pyramid_raises:
  "fst (train_step env curr_iter data' ow (self\<lparr>num_scales := n\<rparr>))
     = fst (train_step env curr_iter data' ow self)
   \<and> curr_stage (snd (train_step env curr_iter data' ow (self\<lparr>num_scales := n\<rparr>)))
       = curr_stage (snd (train_step env curr_iter data' ow self))
   \<and> (iters_per_scale self * discriminator_steps self \<noteq> 0
       \<and> curr_iter mod (iters_per_scale self * discriminator_steps self) = 0
       \<and> curr_iter \<noteq> 0 \<and> reals self \<noteq> []
       \<and> int (length (reals self)) \<le> curr_stage self + 1
       \<longrightarrow> (\<exists>e. fst (train_step env curr_iter data' ow self) = Inl e
                  \<and> (e = IndexError \<or> (\<exists>k. e = KeyError k) \<or> (\<exists>m. e = AssertionError m)))
           \<and> curr_stage (snd (train_step env curr_iter data' ow self)) = curr_stage self + 1
           \<and> num_scales (snd (train_step env curr_iter data' ow self)) = num_scales self)"
proof (intro conjI impI)
  from train_step_agree[OF agree_num_scales[of n self], of env curr_iter data' ow]
  show "fst (train_step env curr_iter data' ow (self\<lparr>num_scales := n\<rparr>))
          = fst (train_step env curr_iter data' ow self)"
    and "curr_stage (snd (train_step env curr_iter data' ow (self\<lparr>num_scales := n\<rparr>)))
          = curr_stage (snd (train_step env curr_iter data' ow self))"
    by (simp_all add: agree_out_def agree_def)
next
  assume a: "iters_per_scale self * discriminator_steps self \<noteq> 0
       \<and> curr_iter mod (iters_per_scale self * discriminator_steps self) = 0
       \<and> curr_iter \<noteq> 0 \<and> reals self \<noteq> []
       \<and> int (length (reals self)) \<le> curr_stage self + 1"
  then have nz: "iters_per_scale self * discriminator_steps self \<noteq> 0"
    and fires: "curr_iter mod (iters_per_scale self * discriminator_steps self) = 0"
    and i0: "curr_iter \<noteq> 0" and rs: "reals self \<noteq> []"
    and beyond: "int (length (reals self)) \<le> curr_stage self + 1"
    by blast+
  obtain res self' where ts: "train_step env curr_iter data' ow self = (res, self')"
    by (cases "train_step env curr_iter data' ow self")
  from train_step_stage[OF nz ts] fires
  have st: "curr_stage self' = curr_stage self + 1" "num_scales self' = num_scales self"
    by (simp_all add: same_setup_def)
  obtain r1 s1 where p1: "stage_transition env ow self = (r1, s1)"
    by (cases "stage_transition env ow self")
  note f1 = stage_transition_frame[OF p1]
  have err: "\<exists>e. res = Inl e
             \<and> (e = IndexError \<or> (\<exists>k. e = KeyError k) \<or> (\<exists>m. e = AssertionError m))"
  proof (cases r1)
    case (Inl e)
    with p1 ts nz fires have "res = Inl e" by (simp add: train_step_phases)
    with stage_transition_errors[OF p1[unfolded Inl]] show ?thesis by auto
  next
    case (Inr u)
    have b: "reals s1 \<noteq> []" "int (length (reals s1)) \<le> curr_stage s1"
      using f1 rs beyond by simp_all
    from after_transition_beyond[OF i0 b, of env data' ow] obtain e s' where
      "after_transition env curr_iter data' ow s1 = (Inl e, s')"
      "e = IndexError \<or> (\<exists>k. e = KeyError k)"
      by blast
    with Inr p1 ts nz fires show ?thesis by (auto simp: train_step_phases)
  qed
  from err ts
  show "\<exists>e. fst (train_step env curr_iter data' ow self) = Inl e
           \<and> (e = IndexError \<or> (\<exists>k. e = KeyError k) \<or> (\<exists>m. e = AssertionError m))"
    by simp
  from st ts
  show "curr_stage (snd (train_step env curr_iter data' ow self)) = curr_stage self + 1"
    and "num_scales (snd (train_step env curr_iter data' ow self)) = num_scales self"
    by simp_all
qed

lemma one_tick_one_image:
  "iters_per_scale (snd (train_step env0 0 batch1 optims0 (fresh w)))
     * discriminator_steps (snd (train_step env0 0 batch1 optims0 (fresh w))) = 1
   \<and> reals (snd (train_step env0 0 batch1 optims0 (fresh w))) = [pixel 0]
   \<and> curr_stage (snd (train_step env0 0 batch1 optims0 (fresh w))) = 0"
  by (simp add: step_defs run_defs example_defs numeral_2_eq_2)

theorem stage_beyond_pyramid_raises_witness:
  "iters_per_scale (snd (train_step env0 0 batch1 optims0 (fresh (1 / 10))))
     * discriminator_steps (snd (train_step env0 0 batch1 optims0 (fresh (1 / 10)))) \<noteq> 0
   \<and> 1 mod (iters_per_scale (snd (train_step env0 0 batch1 optims0 (fresh (1 / 10))))
             * discriminator_steps (snd (train_step env0 0 batch1 optims0 (fresh (1 / 10))))) = 0
   \<and> (1::int) \<noteq> 0
   \<and> reals (snd (train_step env0 0 batch1 optims0 (fresh (1 / 10)))) \<noteq> []
   \<and> int (length (reals (snd (train_step env0 0 batch1 optims0 (fresh (1 / 10))))))
       \<le> curr_stage (snd (train_step env0 0 batch1 optims0 (fresh (1 / 10)))) + 1
   \<and> isl (fst (train_step env0 1 batch1 optims0
                  (snd (train_step env0 0 batch1 optims0 (fresh (1 / 10))))))
   \<and> isl (fst (train_step env0 1 batch1 optims0
                  ((snd (train_step env0 0 batch1 optims0 (fresh (1 / 10))))
                     \<lparr>num_scales := Some 7\<rparr>)))
   \<and> curr_stage (snd (train_step env0 1 batch1 optims0
                         (snd (train_step env0 0 batch1 optims0 (fresh (1 / 10)))))) = 1"
proof -
  let ?s = "snd (train_step env0 0 batch1 optims0 (fresh (1 / 10)))"
  note o = one_tick_one_image[of "1 / 10"]
  have h: "iters_per_scale ?s * discriminator_steps ?s \<noteq> 0
           \<and> 1 mod (iters_per_scale ?s * discriminator_steps ?s) = 0
           \<and> (1::int) \<noteq> 0 \<and> reals ?s \<noteq> []
           \<and> int (length (reals ?s)) \<le> curr_stage ?s + 1"
    using o by simp
  from stage_beyond_pyramid_raises
         [where env = env0 and curr_iter = 1 and data' = batch1 and ow = optims0
            and self = ?s and n = "Some 7"] h o
  have "isl (fst (train_step env0 1 batch1 optims0 ?s))
        \<and> isl (fst (train_step env0 1 batch1 optims0 (?s\<lparr>num_scales := Some 7\<rparr>)))
        \<and> curr_stage (snd (train_step env0 1 batch1 optims0 ?s)) = 1"
    by auto
  with h show ?thesis by simp
qed

text \<open>A stage beyond \<open>num_scales\<close> raises nothing by itself. A model built with
  \<open>num_scales = 0\<close> and trained on a pyramid of two images enters stage \<open>1\<close> at iteration
  \<open>1\<close> and completes the tick.\<close>

theorem stage_exceeds_num_scales_counterexample:
  "num_scales (SinGAN_init base0 (Some 0) 1 (1 / 10) None None) = Some 0
   \<and> \<not> isl (fst (run_ticks env0 batches2 optims0 2
                    (SinGAN_init base0 (Some 0) 1 (1 / 10) None None)))
   \<and> curr_stage (snd (run_ticks env0 batches2 optims0 2
                        (SinGAN_init base0 (Some 0) 1 (1 / 10) None None))) = 1
   \<and> num_scales (snd (run_ticks env0 batches2 optims0 2
                        (SinGAN_init base0 (Some 0) 1 (1 / 10) None None))) = Some 0"
proof -
  have "num_scales (SinGAN_init base0 (Some 0) 1 (1 / 10) None None) = Some 0"
    by (simp add: SinGAN_init_def singan.defs basegan.defs)
  with two_ticks_two_images[of "Some 0" "1 / 10"] show ?thesis by (simp add: numeral_2_eq_2)
qed

subsection \<open>The accumulation check\<close>

text \<open>
  Claim C9, as the code has it. On the first tick of a stage, when the optimiser of the
  generator or of the discriminator of the new stage has an accumulation count other
  than \<open>1\<close>, \<open>train_step\<close> raises an \<open>AssertionError\<close> after it has incremented the stage
  and carried the weights over, and before any update round. The message is always the
  same text, \<open>SinGAN do set batch size as 1 during training and do not support gradient
  accumulation.\<close>; it names neither the stage nor the counts.
\<close>

theorem accumulation_check:
  assumes "iters_per_scale self * discriminator_steps self \<noteq> 0"
      and "curr_iter mod (iters_per_scale self * discriminator_steps self) = 0"
      and "dict_get ow (''generator_'' @ str_int (curr_stage self + 1)) = Inr g"
      and "dict_get ow (''discriminator_'' @ str_int (curr_stage self + 1)) = Inr d"
      and "accumulative_counts g \<noteq> 1 \<or> accumulative_counts d \<noteq> 1"
  shows "fst (train_step env curr_iter data' ow self)
           = Inl (AssertionError
                    ''SinGAN do set batch size as 1 during training and do not support gradient accumulation.'')
         \<and> curr_stage (snd (train_step env curr_iter data' ow self)) = curr_stage self + 1
         \<and> trace (snd (train_step env curr_iter data' ow self))
             = trace self @ [LoadPrevWeight ''generator'' (curr_stage self + 1),
                             LoadPrevWeight ''discriminator'' (curr_stage self + 1)]"
  using assms
  by (auto simp: train_step_phases stage_transition_def Let_def warning_msg_def)

theorem accumulation_check_witness:
  "iters_per_scale (fresh (1 / 10)) * discriminator_steps (fresh (1 / 10)) \<noteq> 0
   \<and> 0 mod (iters_per_scale (fresh (1 / 10)) * discriminator_steps (fresh (1 / 10))) = 0
   \<and> dict_get optims_bad (''generator_'' @ str_int (curr_stage (fresh (1 / 10)) + 1))
       = Inr \<lparr>accumulative_counts = 2\<rparr>
   \<and> dict_get optims_bad (''discriminator_'' @ str_int (curr_stage (fresh (1 / 10)) + 1))
       = Inr one_step
   \<and> accumulative_counts \<lparr>accumulative_counts = 2\<rparr> \<noteq> 1
   \<and> fst (train_step env0 0 batch1 optims_bad (fresh (1 / 10))) = Inl (AssertionError warning_msg)
   \<and> trace (snd (train_step env0 0 batch1 optims_bad (fresh (1 / 10))))
       = [LoadPrevWeight ''generator'' 0, LoadPrevWeight ''discriminator'' 0]"
proof -
  have h1: "iters_per_scale (fresh (1 / 10)) * discriminator_steps (fresh (1 / 10)) \<noteq> 0"
    by (simp add: fresh_def example_defs)
  have h2: "0 mod (iters_per_scale (fresh (1 / 10)) * discriminator_steps (fresh (1 / 10))) = 0"
    by simp
  have h3: "dict_get optims_bad (''generator_'' @ str_int (curr_stage (fresh (1 / 10)) + 1))
              = Inr \<lparr>accumulative_counts = 2\<rparr>"
    by (simp add: optims_bad_def step_defs dict_get_def example_defs)
  have h4: "dict_get optims_bad (''discriminator_'' @ str_int (curr_stage (fresh (1 / 10)) + 1))
              = Inr one_step"
    by (simp add: optims_bad_def step_defs dict_get_def example_defs)
  have h5: "accumulative_counts \<lparr>accumulative_counts = 2\<rparr> \<noteq> 1
            \<or> accumulative_counts one_step \<noteq> 1"
    by simp
  have t: "curr_stage (fresh (1 / 10)) = - 1" "trace (fresh (1 / 10)) = []"
    by (simp_all add: fresh_def example_defs)
  from accumulation_check [OF h1 h2 h3 h4 h5, of env0 batch1] h1 h2 h3 h4 t
  show ?thesis by (simp add: warning_msg_def)
qed

text \<open>The message of the failed check at stage \<open>0\<close> with an actual count of \<open>2\<close>
  contains neither \<open>0\<close> nor \<open>2\<close>.\<close>

theorem accumulation_message_counterexample:
  "fst (train_step env0 0 batch1 optims_bad (fresh (1 / 10))) = Inl (AssertionError warning_msg)
   \<and> curr_stage (snd (train_step env0 0 batch1 optims_bad (fresh (1 / 10)))) = 0
   \<and> \<not> str_contains (str_int 0) warning_msg
   \<and> \<not> str_contains (str_int 2) warning_msg"
  by (simp add: optims_bad_def step_defs run_defs example_defs numeral_2_eq_2)


end
